theory Spec2Isabelle
  imports Main
begin

section \<open>Values shared by the dashboard's scripts\<close>

text \<open>
  The development embeds the AI assistance path of the dashboard: the class \<open>AIService\<close>
  (streaming, cancellation, response cache, error mapping), the class
  \<open>AIAssistModalComponent\<close> (the subscriber of the stream), the method
  \<open>DependabotApp.handleAIAssistRequest\<close> and the helpers of \<open>AppHelpers\<close> they call.

  JavaScript strings are modelled as \<open>string\<close>; a property that may be \<open>undefined\<close> or
  \<open>null\<close> is a \<open>string option\<close>. \<open>truthy\<close> is JavaScript's truthiness on such a value:
  \<open>undefined\<close>, \<open>null\<close> and the empty string are falsy.
\<close>

definition truthy :: "string option \<Rightarrow> bool" where
  "truthy v = (case v of None \<Rightarrow> False | Some s \<Rightarrow> s \<noteq> [])"

text \<open>\<open>v || d\<close> on a string-valued property.\<close>

definition or_default :: "string option \<Rightarrow> string \<Rightarrow> string" where
  "or_default v d = (case v of None \<Rightarrow> d | Some s \<Rightarrow> if s = [] then d else s)"

text \<open>An alert as the cards hand it over; \<open>alert_id\<close> is the property \<open>id\<close>.\<close>

record alert =
  alert_id :: "string option"
  vulnerability :: "string option"
  package :: "string option"
  severity :: "string option"
  patched_in :: "string option"
  apply_fix_in :: "string option"
  repo_name :: "string option"

text \<open>The body posted to the suggestion service (\<open>processedAlert\<close>).\<close>

record suggestion_request =
  req_vulnerability :: string
  req_package :: string
  req_severity :: string
  req_patched_in :: string
  req_apply_fix_in :: string
  req_repo_name :: string
  req_created_at :: int

text \<open>
  A thrown value: its \<open>name\<close>, its \<open>message\<close> and the \<open>status\<close> property that the API
  error handlers attach. Anything can be thrown, so the message is \<open>None\<close> when the value
  has no string under \<open>message\<close>; \<open>new Error(msg)\<close> always has one. The name is only ever
  compared with \<open>'TypeError'\<close>.
\<close>

record js_error =
  err_name :: string
  err_message :: "string option"
  err_status :: "int option"

definition Error :: "string \<Rightarrow> js_error" where
  "Error msg = \<lparr>err_name = ''Error'', err_message = Some msg, err_status = None\<rparr>"

text \<open>
  The errors that the engine raises: reading a property of \<open>undefined\<close> or of \<open>null\<close>, and
  \<open>response.json()\<close> on a body that is not JSON. Their texts differ between engines and
  nothing below depends on them.
\<close>

definition undefined_property_error :: js_error where
  "undefined_property_error =
     \<lparr>err_name = ''TypeError'', err_message = Some ''Cannot read properties of undefined'',
      err_status = None\<rparr>"

definition null_property_error :: js_error where
  "null_property_error =
     \<lparr>err_name = ''TypeError'', err_message = Some ''Cannot read properties of null'',
      err_status = None\<rparr>"

definition json_syntax_error :: js_error where
  "json_syntax_error =
     \<lparr>err_name = ''SyntaxError'', err_message = Some ''Unexpected token in JSON'',
      err_status = None\<rparr>"

text \<open>What \<open>fetch\<close> rejects with when no response arrives.\<close>

definition fetch_failure :: js_error where
  "fetch_failure =
     \<lparr>err_name = ''TypeError'', err_message = Some ''Failed to fetch'', err_status = None\<rparr>"

text \<open>
  A fetch \<open>Response\<close>: the status code and the body. \<open>response.body\<close> is \<open>null\<close> or a
  stream; the flag of \<open>Stream\<close> says whether the reader obtained from it has an \<open>abort\<close>
  method, which is what \<open>cancelStream\<close> tests before calling it. \<open>response.ok\<close> is, by
  the Fetch standard, the status lying in 200..299.
\<close>

datatype response_body = NullBody | Stream bool

record response =
  status :: int
  body :: response_body

definition response_ok :: "response \<Rightarrow> bool" where
  "response_ok r = (200 \<le> status r \<and> status r \<le> 299)"

text \<open>
  The outcome of \<open>await response.json()\<close> in the error handler: the promise rejects
  (the body is not JSON), or it yields \<open>null\<close>, or it yields a value whose \<open>error\<close>
  property is given (\<open>None\<close> when the value has no such property).
\<close>

datatype json_outcome = JsonFails | JsonNull | JsonValue "string option"

text \<open>What \<open>await reader.read()\<close> resolves to; a chunk is given as its decoded text.\<close>

datatype read_result = Chunk string | EndOfStream

subsection \<open>Constants (\<open>constants.js\<close>)\<close>

definition STREAM_FIX :: string where
  "STREAM_FIX = ''/stream_fix''"

definition NETWORK_ERROR :: string where
  "NETWORK_ERROR = ''Network error occurred. Please check your connection.''"

definition AI_SERVICE_ERROR :: string where
  "AI_SERVICE_ERROR = ''AI service is currently unavailable. Please try again later.''"

definition UNAUTHORIZED :: string where
  "UNAUTHORIZED = ''Unauthorized access. Please check your GitHub token.''"

definition RATE_LIMITED :: string where
  "RATE_LIMITED = ''Rate limit exceeded. Please wait before making more requests.''"

definition AI_RESPONSE_COMPLETE :: string where
  "AI_RESPONSE_COMPLETE = ''AI analysis completed''"

text \<open>The two messages that \<open>AIService._handleApiError\<close> spells out itself.\<close>

definition SERVICE_UNAVAILABLE :: string where
  "SERVICE_UNAVAILABLE = ''AI service is temporarily unavailable. Please try again later.''"

definition SERVICE_INTERNAL_ERROR :: string where
  "SERVICE_INTERNAL_ERROR = ''AI service encountered an internal error. Please try again.''"

subsection \<open>\<open>AppHelpers\<close>\<close>

text \<open>\<open>String.prototype.replace\<close> with a global one-character pattern.\<close>

definition replace_char :: "char \<Rightarrow> string \<Rightarrow> string \<Rightarrow> string" where
  "replace_char c r s = concat (map (\<lambda>x. if x = c then r else [x]) s)"

definition escapeHtml :: "string option \<Rightarrow> string" where
  "escapeHtml unsafe =
     (case unsafe of
        None \<Rightarrow> []
      | Some s \<Rightarrow>
          replace_char (CHR 0x27) ''&#039;''
            (replace_char (CHR 0x22) ''&quot;''
              (replace_char (CHR ''>'') ''&gt;''
                (replace_char (CHR ''<'') ''&lt;''
                  (replace_char (CHR ''&'') ''&amp;'' s)))))"

text \<open>
  \<open>AppHelpers.getErrorMessage\<close>. The argument is the caught error, \<open>None\<close> when there is
  none. \<open>includes_str s sub\<close> is \<open>s.includes(sub)\<close>. The second test evaluates
  \<open>error.message.includes(...)\<close> unless the name is \<open>'TypeError'\<close>; on a value without a
  string message that call raises, and the function is left by that exception (\<open>Inl\<close>).
\<close>

fun includes_str :: "string \<Rightarrow> string \<Rightarrow> bool" where
  "includes_str [] sub = (sub = [])"
| "includes_str (x # xs) sub = (take (length sub) (x # xs) = sub \<or> includes_str xs sub)"

definition getErrorMessage :: "js_error option \<Rightarrow> js_error + string" where
  "getErrorMessage error =
     (case error of
        None \<Rightarrow> Inr NETWORK_ERROR
      | Some e \<Rightarrow>
          if err_name e = ''TypeError'' then Inr NETWORK_ERROR
          else (case err_message e of
                  None \<Rightarrow> Inl undefined_property_error
                | Some m \<Rightarrow>
                    if includes_str m ''Failed to fetch'' then Inr NETWORK_ERROR
                    else if err_status e = Some 401 then Inr UNAUTHORIZED
                    else if err_status e = Some 429 then Inr RATE_LIMITED
                    else if m \<noteq> [] then Inr m
                    else Inr NETWORK_ERROR))"

subsection \<open>\<open>AIService\<close>: validation and error mapping\<close>

definition join_str :: "string \<Rightarrow> string list \<Rightarrow> string" where
  "join_str sep xs = (case xs of [] \<Rightarrow> [] | y # ys \<Rightarrow> y @ concat (map (\<lambda>z. sep @ z) ys))"

definition requiredFields :: "(string \<times> (alert \<Rightarrow> string option)) list" where
  "requiredFields =
     [(''vulnerability'', vulnerability), (''package'', package), (''severity'', severity)]"

text \<open>
  \<open>_validateAlertData\<close>; the second argument is \<open>Date.now()\<close>, kept as the number of
  milliseconds instead of its ISO rendering.
\<close>

definition validateAlertData :: "alert \<Rightarrow> int \<Rightarrow> js_error + suggestion_request" where
  "validateAlertData alertData t =
     (let missingFields =
            map fst (filter (\<lambda>field. \<not> truthy (snd field alertData)) requiredFields)
      in if length missingFields > 0
         then Inl (Error (''Missing required fields: '' @ join_str '', '' missingFields))
         else Inr \<lparr>req_vulnerability = escapeHtml (vulnerability alertData),
                   req_package = escapeHtml (package alertData),
                   req_severity = or_default (severity alertData) [],
                   req_patched_in = or_default (patched_in alertData) ''N/A'',
                   req_apply_fix_in = or_default (apply_fix_in alertData) ''Unknown file'',
                   req_repo_name = or_default (repo_name alertData) ''Unknown repository'',
                   req_created_at = t\<rparr>)"

text \<open>
  The \<open>try\<close> block of \<open>_handleApiError\<close>: it reads the body and takes its \<open>error\<close> text
  as the message when that is truthy. It raises (\<open>Inl\<close>) when the body is not JSON, and
  when the value read is \<open>null\<close>, whose property cannot be read.
\<close>

definition try_error_from_body :: "json_outcome \<Rightarrow> string \<Rightarrow> js_error + string" where
  "try_error_from_body json errorMessage =
     (case json of
        JsonFails \<Rightarrow> Inl json_syntax_error
      | JsonNull \<Rightarrow> Inl null_property_error
      | JsonValue e \<Rightarrow> Inr (or_default e errorMessage))"

text \<open>
  \<open>_handleApiError\<close>, given the response and the outcome of reading its JSON body. The
  \<open>catch\<close> after the \<open>try\<close> block keeps the default message. The source always leaves
  by \<open>throw error\<close>; the function returns the error thrown.
\<close>

definition handleApiError :: "response \<Rightarrow> json_outcome \<Rightarrow> js_error" where
  "handleApiError resp json =
     (let fromBody =
            (case try_error_from_body json AI_SERVICE_ERROR of
               Inl parseError \<Rightarrow> AI_SERVICE_ERROR
             | Inr m \<Rightarrow> m);
          errorMessage =
            (if status resp = 401 then UNAUTHORIZED
             else if status resp = 429 then RATE_LIMITED
             else if status resp = 503 then SERVICE_UNAVAILABLE
             else if status resp = 500 then SERVICE_INTERNAL_ERROR
             else fromBody)
      in \<lparr>err_name = ''Error'', err_message = Some errorMessage,
          err_status = Some (status resp)\<rparr>)"

section \<open>The state of the page\<close>

text \<open>
  One record holds what the three classes and \<open>localStorage\<close> keep between events.
  The page is single-threaded: an event handler, or the continuation of an \<open>async\<close>
  function after an \<open>await\<close>, runs to its next \<open>await\<close> without interruption. An
  invocation of \<open>streamFixSuggestion\<close> that is suspended at an \<open>await\<close> is recorded in
  \<open>sessions\<close> under a number of its own, with the \<open>await\<close> it is suspended at:
  \<^item> \<open>AwaitPost\<close>: \<open>await AppHelpers.http.post(...)\<close>;
  \<^item> \<open>AwaitJson response\<close>: \<open>await response.json()\<close> in \<open>_handleApiError\<close>;
  \<^item> \<open>AwaitRead buffer\<close>: \<open>await reader.read()\<close> in the loop of
    \<open>_handleStreamingResponse\<close>, with the loop's \<open>buffer\<close>.

  \<open>alert_of\<close> keeps the argument \<open>alertData\<close> that each invocation was called with.

  \<open>trace\<close> is not state of the program: it lists, in order, the calls that leave the
  three classes (the request issued, the subscriber callbacks invoked by the service, the
  reader's \<open>abort\<close>, the write to \<open>localStorage\<close>, the notifications).

  The elements \<open>assist-bg\<close> and \<open>assist-content\<close> exist in \<open>index.html\<close>, so the
  modal's \<open>modal\<close> and \<open>modalContent\<close> are taken as present, and the application has
  installed \<open>showNotification\<close> as the modal's \<open>onNotification\<close>. Of the DOM only the
  content of \<open>assist-content\<close> and the state of the Create-PR button are kept. The
  completion callback of \<open>handleAIAssistRequest\<close>, which resets the button of the
  requesting card, is left out.
\<close>

record cache_entry =
  response :: string
  timestamp :: int

datatype phase = AwaitPost | AwaitJson response | AwaitRead string

datatype reader = Reader nat bool

text \<open>
  What \<open>assist-content\<close> shows: nothing, the loading indicator, a text assigned to
  \<open>textContent\<close> as it is, the result of \<open>formatResponse\<close> on a text, or the error
  panel (with its retry button) for a message.
\<close>

datatype view = Blank | LoadingIndicator | RawText string | FormattedText string | ErrorState string

datatype effect =
    HttpPost string suggestion_request
  | OnData nat string
  | OnComplete nat string
  | OnError nat js_error
  | ReaderAbort nat
  | StorageSet string string int
  | Notification string string

record world =
  now :: int
  isStreaming :: bool
  currentStream :: "reader option"
  storage_ok :: bool
  ai_responses :: "string \<rightharpoonup> cache_entry"
  selected_repository :: "string option option"
  isVisible :: bool
  currentAlert :: "alert option"
  modal_isStreaming :: bool
  modalContent :: view
  createPR_disabled :: bool
  pending_clear :: nat
  sessions :: "nat \<rightharpoonup> phase"
  alert_of :: "nat \<rightharpoonup> alert"
  next_session :: nat
  trace :: "effect list"

definition emit :: "effect \<Rightarrow> world \<Rightarrow> world" where
  "emit e w = w\<lparr>trace := trace w @ [e]\<rparr>"

subsection \<open>\<open>AppHelpers.storage\<close>\<close>

text \<open>
  \<open>storage_ok\<close> says whether \<open>localStorage\<close> works. \<open>storage.get\<close> returns its default
  when reading raises or nothing is stored; \<open>storage.set\<close> swallows a failure.
  \<open>selected_repository\<close> is the stored repository, given by its \<open>full_name\<close>.
\<close>

definition storage_get_ai_responses :: "world \<Rightarrow> (string \<rightharpoonup> cache_entry)" where
  "storage_get_ai_responses w = (if storage_ok w then ai_responses w else Map.empty)"

definition storage_set_ai_responses :: "(string \<rightharpoonup> cache_entry) \<Rightarrow> world \<Rightarrow> world" where
  "storage_set_ai_responses cache w = (if storage_ok w then w\<lparr>ai_responses := cache\<rparr> else w)"

definition storage_get_selected_repository :: "world \<Rightarrow> string option option" where
  "storage_get_selected_repository w = (if storage_ok w then selected_repository w else None)"

subsection \<open>\<open>AIService\<close>: the response cache\<close>

definition retention :: int where
  "retention = 24 * 60 * 60 * 1000"

text \<open>
  \<open>cacheResponse\<close>. The assignment \<open>cache[alertId] = ...\<close> adds or replaces an entry,
  except for the key \<open>__proto__\<close> on an object that has no entry of that name: there
  it sets the prototype of \<open>cache\<close>, which \<open>JSON.stringify\<close> does not write, so
  \<open>storage.set\<close> stores the cache as it was. The trace records the entry handed to
  \<open>storage.set\<close>, when there is one.
\<close>

definition assigns_entry :: "(string \<rightharpoonup> cache_entry) \<Rightarrow> string \<Rightarrow> bool" where
  "assigns_entry cache k = (k \<noteq> ''__proto__'' \<or> cache k \<noteq> None)"

definition cacheResponse :: "string option \<Rightarrow> string \<Rightarrow> world \<Rightarrow> world" where
  "cacheResponse alertId resp w =
     (case alertId of
        None \<Rightarrow> w
      | Some k \<Rightarrow>
          if k = [] \<or> resp = [] then w
          else let cache = storage_get_ai_responses w
               in if assigns_entry cache k
                  then storage_set_ai_responses
                         (cache(k \<mapsto> \<lparr>response = resp, timestamp = now w\<rparr>))
                         (emit (StorageSet k resp (now w)) w)
                  else storage_set_ai_responses cache w)"

definition getCachedResponse :: "string option \<Rightarrow> world \<Rightarrow> string option" where
  "getCachedResponse alertId w =
     (case alertId of
        None \<Rightarrow> None
      | Some k \<Rightarrow>
          if k = [] then None
          else (case storage_get_ai_responses w k of
                  None \<Rightarrow> None
                | Some cached \<Rightarrow>
                    if response cached \<noteq> []
                    then (if now w - timestamp cached < retention
                          then Some (response cached) else None)
                    else None))"

definition clearCache :: "world \<Rightarrow> world" where
  "clearCache w = (if storage_ok w then w\<lparr>ai_responses := Map.empty\<rparr> else w)"

subsection \<open>\<open>AIService.cancelStream\<close>\<close>

definition cancelStream :: "world \<Rightarrow> world" where
  "cancelStream w =
     (let w1 = (case currentStream w of
                  Some (Reader sid True) \<Rightarrow> emit (ReaderAbort sid) w
                | _ \<Rightarrow> w)
      in w1\<lparr>isStreaming := False, currentStream := None\<rparr>)"

subsection \<open>\<open>AIAssistModalComponent\<close>: what the subscriber does\<close>

definition showLoadingState :: "world \<Rightarrow> world" where
  "showLoadingState w = w\<lparr>modalContent := LoadingIndicator, createPR_disabled := True\<rparr>"

definition showError :: "string \<Rightarrow> world \<Rightarrow> world" where
  "showError errorMessage w = w\<lparr>modalContent := ErrorState errorMessage\<rparr>"

definition setModalContent :: "string \<Rightarrow> world \<Rightarrow> world" where
  "setModalContent content w = w\<lparr>modalContent := RawText content\<rparr>"

definition updateStreamingContent :: "string \<Rightarrow> world \<Rightarrow> world" where
  "updateStreamingContent d w =
     (if \<not> isVisible w then w else w\<lparr>modalContent := FormattedText d\<rparr>)"

definition handleStreamingComplete :: "string \<Rightarrow> world \<Rightarrow> world" where
  "handleStreamingComplete finalData w =
     (let w1 = w\<lparr>modal_isStreaming := False\<rparr>
      in if \<not> isVisible w1 then w1
         else let w2 = w1\<lparr>modalContent := FormattedText finalData, createPR_disabled := False\<rparr>;
                  w3 = (case currentAlert w2 of
                          None \<Rightarrow> w2
                        | Some a \<Rightarrow>
                            if truthy (alert_id a) then cacheResponse (alert_id a) finalData w2
                            else w2)
              in emit (Notification AI_RESPONSE_COMPLETE ''success'') w3)"

definition handleStreamingError :: "js_error \<Rightarrow> world \<Rightarrow> world" where
  "handleStreamingError error w =
     (let w1 = w\<lparr>modal_isStreaming := False\<rparr>;
          w2 = showError (or_default (err_message error) ''Failed to get AI assistance'') w1
      in emit (Notification (or_default (err_message error) AI_SERVICE_ERROR) ''error'') w2)"

definition loadCachedResponse :: "alert \<Rightarrow> world \<Rightarrow> bool \<times> world" where
  "loadCachedResponse a w =
     (if \<not> truthy (alert_id a) then (False, w)
      else (case getCachedResponse (alert_id a) w of
              None \<Rightarrow> (False, w)
            | Some cachedResponse \<Rightarrow>
                if cachedResponse = [] then (False, w)
                else (True, (setModalContent cachedResponse w)\<lparr>createPR_disabled := False\<rparr>)))"

section \<open>\<open>AIService.streamFixSuggestion\<close>\<close>

text \<open>
  The subscriber callbacks. The only caller of \<open>streamFixSuggestion\<close> is the modal's
  \<open>streamAIResponse\<close>, which passes \<open>updateStreamingContent\<close>, \<open>handleStreamingComplete\<close>
  and \<open>handleStreamingError\<close>; each invocation by the service is recorded in the trace
  with the number of the invocation that made it.
\<close>

definition onData :: "nat \<Rightarrow> string \<Rightarrow> world \<Rightarrow> world" where
  "onData sid d w = updateStreamingContent d (emit (OnData sid d) w)"

definition onComplete :: "nat \<Rightarrow> string \<Rightarrow> world \<Rightarrow> world" where
  "onComplete sid finalData w = handleStreamingComplete finalData (emit (OnComplete sid finalData) w)"

definition onError :: "nat \<Rightarrow> js_error \<Rightarrow> world \<Rightarrow> world" where
  "onError sid error w = handleStreamingError error (emit (OnError sid error) w)"

text \<open>The \<open>finally\<close> block of \<open>streamFixSuggestion\<close>; the invocation is over.\<close>

definition finally_block :: "nat \<Rightarrow> world \<Rightarrow> world" where
  "finally_block sid w =
     w\<lparr>isStreaming := False, currentStream := None, sessions := (sessions w)(sid := None)\<rparr>"

text \<open>
  The synchronous part of \<open>streamFixSuggestion(alertData, ...)\<close>, up to the first
  \<open>await\<close>. It returns \<open>Inl error\<close> when the promise is already rejected with \<open>error\<close>,
  and \<open>Inr sid\<close> when the request has been issued and the invocation, numbered \<open>sid\<close>,
  is suspended on it. The two guards throw before the \<open>try\<close>, so neither the \<open>catch\<close>
  nor the \<open>finally\<close> block runs for them. \<open>alertData\<close> is \<open>None\<close> when the argument is
  not an object.
\<close>

definition streamFixSuggestion :: "alert option \<Rightarrow> world \<Rightarrow> (js_error + nat) \<times> world" where
  "streamFixSuggestion alertData w =
     (if isStreaming w then (Inl (Error ''AI assistance is already in progress''), w)
      else (case alertData of
              None \<Rightarrow> (Inl (Error ''Valid alert data is required''), w)
            | Some a \<Rightarrow>
                let sid = next_session w;
                    w1 = w\<lparr>isStreaming := True, next_session := Suc sid\<rparr>
                in (case validateAlertData a (now w1) of
                      Inl error \<Rightarrow> (Inl error, finally_block sid (onError sid error w1))
                    | Inr processedAlert \<Rightarrow>
                        (Inr sid,
                         (emit (HttpPost STREAM_FIX processedAlert) w1)
                           \<lparr>sessions := (sessions w1)(sid \<mapsto> AwaitPost),
                            alert_of := (alert_of w1)(sid \<mapsto> a)\<rparr>))))"

text \<open>
  The modal's \<open>streamAIResponse\<close> and \<open>showModal\<close> up to the same point. When the promise
  of \<open>streamFixSuggestion\<close> is rejected, the \<open>catch\<close> of \<open>streamAIResponse\<close> calls
  \<open>handleStreamingError\<close>; it does so for every rejection, so \<open>showModal\<close>'s own \<open>catch\<close>
  is never entered.
\<close>

definition streamAIResponse :: "alert \<Rightarrow> world \<Rightarrow> world" where
  "streamAIResponse a w =
     (case streamFixSuggestion (Some a) w of
        (Inl error, w') \<Rightarrow> handleStreamingError error w'
      | (Inr sid, w') \<Rightarrow> w')"

definition showModal :: "alert option \<Rightarrow> world \<Rightarrow> world" where
  "showModal alert w =
     (case alert of
        None \<Rightarrow> w
      | Some a \<Rightarrow>
          streamAIResponse a
            (showLoadingState (w\<lparr>currentAlert := Some a, isVisible := True, modal_isStreaming := True\<rparr>)))"

definition closeModal :: "world \<Rightarrow> world" where
  "closeModal w =
     (if \<not> isVisible w then w
      else let w1 = (if modal_isStreaming w then (cancelStream w)\<lparr>modal_isStreaming := False\<rparr> else w)
           in w1\<lparr>isVisible := False, currentAlert := None, pending_clear := Suc (pending_clear w1)\<rparr>)"

text \<open>The retry button exists only while the error panel is shown.\<close>

definition retry_click :: "world \<Rightarrow> world" where
  "retry_click w =
     (case modalContent w of
        ErrorState m \<Rightarrow> (case currentAlert w of None \<Rightarrow> w | Some a \<Rightarrow> showModal (Some a) w)
      | _ \<Rightarrow> w)"

text \<open>The timer that \<open>closeModal\<close> sets, 300 ms later.\<close>

definition clear_timeout :: "world \<Rightarrow> world" where
  "clear_timeout w =
     (if pending_clear w = 0 then w
      else w\<lparr>pending_clear := pending_clear w - 1, modalContent := Blank\<rparr>)"

subsection \<open>\<open>DependabotApp.handleAIAssistRequest\<close>\<close>

text \<open>
  The alert is \<open>None\<close> when the argument is falsy. The assignment to \<open>alert.repo_name\<close>
  changes the object that is then passed on. On a cache hit \<open>showModal\<close> is called
  without \<open>await\<close>, otherwise with it; both run \<open>showModal\<close> to its first \<open>await\<close>.
\<close>

definition handleAIAssistRequest :: "alert option \<Rightarrow> world \<Rightarrow> world" where
  "handleAIAssistRequest alert w =
     (case alert of
        None \<Rightarrow> w
      | Some a0 \<Rightarrow>
          let a = (case storage_get_selected_repository w of
                     None \<Rightarrow> a0
                   | Some full_name \<Rightarrow> a0\<lparr>repo_name := full_name\<rparr>)
          in if truthy (alert_id a)
             then (case loadCachedResponse a w of
                     (True, w1) \<Rightarrow> showModal (Some a) w1
                   | (False, w1) \<Rightarrow> showModal (Some a) w1)
             else showModal (Some a) w)"

section \<open>Continuations of a suspended invocation\<close>

text \<open>
  \<open>rejected sid error\<close>: an exception reaches the \<open>catch\<close> of \<open>streamFixSuggestion\<close>.
  It calls \<open>onError\<close> and rethrows, the \<open>finally\<close> block runs, and the rejection is
  caught in \<open>streamAIResponse\<close>, which calls \<open>handleStreamingError\<close>.
\<close>

definition rejected :: "nat \<Rightarrow> js_error \<Rightarrow> world \<Rightarrow> world" where
  "rejected sid error w = handleStreamingError error (finally_block sid (onError sid error w))"

text \<open>
  An exception inside \<open>_handleStreamingResponse\<close> first reaches that method's own
  \<open>catch\<close>, which calls \<open>onError\<close> and rethrows.
\<close>

definition streaming_failed :: "nat \<Rightarrow> js_error \<Rightarrow> world \<Rightarrow> world" where
  "streaming_failed sid error w = rejected sid error (onError sid error w)"

text \<open>The loop has ended: \<open>onComplete(buffer)\<close>, return, \<open>finally\<close>.\<close>

definition completed :: "nat \<Rightarrow> string \<Rightarrow> world \<Rightarrow> world" where
  "completed sid buffer w = finally_block sid (onComplete sid buffer w)"

text \<open>
  The completion marker: \<open>buffer.includes('... Done') || buffer.includes('Done')\<close>, the
  first text starting with the check mark U+2705 (in UTF-8) and a space.
\<close>

definition has_marker :: "string \<Rightarrow> bool" where
  "has_marker buffer =
     (includes_str buffer ([CHR 0xE2, CHR 0x9C, CHR 0x85] @ '' Done'') \<or> includes_str buffer ''Done'')"

text \<open>
  \<open>TypeError\<close> raised by \<open>response.body.getReader()\<close> on a \<open>null\<close> body.
\<close>

definition null_body_error :: js_error where
  "null_body_error = null_property_error"

text \<open>The request's promise resolves with \<open>response\<close>.\<close>

definition post_resolved :: "nat \<Rightarrow> response \<Rightarrow> world \<Rightarrow> world" where
  "post_resolved sid resp w =
     (if \<not> response_ok resp then w\<lparr>sessions := (sessions w)(sid \<mapsto> AwaitJson resp)\<rparr>
      else (case body resp of
              NullBody \<Rightarrow> streaming_failed sid null_body_error w
            | Stream abortable \<Rightarrow>
                w\<lparr>currentStream := Some (Reader sid abortable),
                  sessions := (sessions w)(sid \<mapsto> AwaitRead [])\<rparr>))"

text \<open>\<open>response.json()\<close> settles in \<open>_handleApiError\<close>, which then throws.\<close>

definition json_settled :: "nat \<Rightarrow> response \<Rightarrow> json_outcome \<Rightarrow> world \<Rightarrow> world" where
  "json_settled sid resp json w = rejected sid (handleApiError resp json) w"

text \<open>\<open>reader.read()\<close> resolves: one turn of the loop of \<open>_handleStreamingResponse\<close>.\<close>

definition read_resolved :: "nat \<Rightarrow> string \<Rightarrow> read_result \<Rightarrow> world \<Rightarrow> world" where
  "read_resolved sid buf r w =
     (case r of
        EndOfStream \<Rightarrow> completed sid buf w
      | Chunk chunk \<Rightarrow>
          let buffer = buf @ chunk;
              w1 = onData sid buffer w
          in if has_marker buffer then completed sid buffer w1
             else w1\<lparr>sessions := (sessions w1)(sid \<mapsto> AwaitRead buffer)\<rparr>)"

section \<open>Events\<close>

text \<open>
  What can happen to the page: the user asks for assistance on a card, closes the modal,
  clicks the retry button; \<open>cancelStream\<close> is called directly (the application's
  \<open>cleanup\<close>); a timer of \<open>closeModal\<close> fires; time passes; a promise that a suspended
  invocation awaits settles. A settlement addressed to an invocation that is not
  suspended at that \<open>await\<close> cannot happen and leaves the state as it is.
\<close>

datatype input =
    AssistRequest "alert option"
  | CloseModal
  | RetryClick
  | CancelStream
  | ClearTimeout
  | TimePasses nat
  | PostResolves nat response
  | PostRejects nat js_error
  | JsonSettles nat json_outcome
  | ReadResolves nat read_result
  | ReadRejects nat js_error

fun step :: "input \<Rightarrow> world \<Rightarrow> world" where
  "step (AssistRequest alert) w = handleAIAssistRequest alert w"
| "step CloseModal w = closeModal w"
| "step RetryClick w = retry_click w"
| "step CancelStream w = cancelStream w"
| "step ClearTimeout w = clear_timeout w"
| "step (TimePasses n) w = w\<lparr>now := now w + int n\<rparr>"
| "step (PostResolves sid resp) w =
     (case sessions w sid of Some AwaitPost \<Rightarrow> post_resolved sid resp w | _ \<Rightarrow> w)"
| "step (PostRejects sid error) w =
     (case sessions w sid of Some AwaitPost \<Rightarrow> rejected sid error w | _ \<Rightarrow> w)"
| "step (JsonSettles sid json) w =
     (case sessions w sid of Some (AwaitJson resp) \<Rightarrow> json_settled sid resp json w | _ \<Rightarrow> w)"
| "step (ReadResolves sid r) w =
     (case sessions w sid of Some (AwaitRead buf) \<Rightarrow> read_resolved sid buf r w | _ \<Rightarrow> w)"
| "step (ReadRejects sid error) w =
     (case sessions w sid of Some (AwaitRead buf) \<Rightarrow> streaming_failed sid error w | _ \<Rightarrow> w)"

definition run :: "input list \<Rightarrow> world \<Rightarrow> world" where
  "run ins w = fold step ins w"

text \<open>The page after loading, at time \<open>t\<close>, with a given content of \<open>localStorage\<close>.\<close>

definition initial :: "int \<Rightarrow> (string \<rightharpoonup> cache_entry) \<Rightarrow> world" where
  "initial t cache =
     \<lparr>now = t, isStreaming = False, currentStream = None, storage_ok = True,
      ai_responses = cache, selected_repository = None, isVisible = False,
      currentAlert = None, modal_isStreaming = False, modalContent = Blank,
      createPR_disabled = False, pending_clear = 0, sessions = Map.empty,
      alert_of = Map.empty, next_session = 0, trace = []\<rparr>"

section \<open>Reading a trace\<close>

text \<open>The subscriber callbacks that invocation \<open>sid\<close> made, in order.\<close>

fun callback_of :: "nat \<Rightarrow> effect \<Rightarrow> bool" where
  "callback_of sid (OnData s d) = (s = sid)"
| "callback_of sid (OnComplete s d) = (s = sid)"
| "callback_of sid (OnError s e) = (s = sid)"
| "callback_of sid _ = False"

definition callbacks :: "nat \<Rightarrow> effect list \<Rightarrow> effect list" where
  "callbacks sid tr = filter (callback_of sid) tr"

text \<open>The requests issued to the suggestion service, and the writes to the cache.\<close>

fun is_HttpPost :: "effect \<Rightarrow> bool" where
  "is_HttpPost (HttpPost url req) = True"
| "is_HttpPost _ = False"

definition http_posts :: "effect list \<Rightarrow> effect list" where
  "http_posts tr = filter is_HttpPost tr"

fun is_StorageSet :: "effect \<Rightarrow> bool" where
  "is_StorageSet (StorageSet k r t) = True"
| "is_StorageSet _ = False"

definition cache_writes :: "effect list \<Rightarrow> effect list" where
  "cache_writes tr = filter is_StorageSet tr"

subsection \<open>Data for the scenarios\<close>

text \<open>The alert of the specification's scenarios, a second alert, and a successful response.\<close>

definition alert_a1 :: alert where
  "alert_a1 =
     \<lparr>alert_id = Some ''a1'', vulnerability = Some ''Prototype Pollution'',
      package = Some ''lodash'', severity = Some ''high'', patched_in = None,
      apply_fix_in = None, repo_name = None\<rparr>"

definition alert_a2 :: alert where
  "alert_a2 =
     \<lparr>alert_id = Some ''a2'', vulnerability = Some ''ReDoS'',
      package = Some ''minimist'', severity = Some ''low'', patched_in = None,
      apply_fix_in = None, repo_name = None\<rparr>"

definition request_a1 :: "int \<Rightarrow> suggestion_request" where
  "request_a1 t =
     \<lparr>req_vulnerability = ''Prototype Pollution'', req_package = ''lodash'',
      req_severity = ''high'', req_patched_in = ''N/A'', req_apply_fix_in = ''Unknown file'',
      req_repo_name = ''Unknown repository'', req_created_at = t\<rparr>"

definition request_a2 :: "int \<Rightarrow> suggestion_request" where
  "request_a2 t =
     \<lparr>req_vulnerability = ''ReDoS'', req_package = ''minimist'',
      req_severity = ''low'', req_patched_in = ''N/A'', req_apply_fix_in = ''Unknown file'',
      req_repo_name = ''Unknown repository'', req_created_at = t\<rparr>"

definition ok_response :: response where
  "ok_response = \<lparr>status = 200, body = Stream False\<rparr>"

definition hour :: int where
  "hour = 60 * 60 * 1000"

subsection \<open>The loop of \<open>_handleStreamingResponse\<close> on a list of reads\<close>

text \<open>
  The \<open>while\<close> loop run against the results that \<open>reader.read()\<close> gives one after the
  other, starting with \<open>buffer = buf\<close>: the texts passed to \<open>onData\<close>, and the text
  passed to \<open>onComplete\<close> when the loop ends within the list (\<open>None\<close> when it is still
  waiting for a read after the last one).
\<close>

fun read_loop :: "string \<Rightarrow> read_result list \<Rightarrow> string list \<times> string option" where
  "read_loop buf [] = ([], None)"
| "read_loop buf (EndOfStream # rs) = ([], Some buf)"
| "read_loop buf (Chunk chunk # rs) =
     (let buffer = buf @ chunk
      in if has_marker buffer then ([buffer], Some buffer)
         else (case read_loop buffer rs of (ds, fin) \<Rightarrow> (buffer # ds, fin)))"

fun text_of :: "read_result \<Rightarrow> string" where
  "text_of (Chunk c) = c"
| "text_of EndOfStream = []"

definition chunks_text :: "read_result list \<Rightarrow> string" where
  "chunks_text rs = concat (map text_of rs)"

text \<open>
  The condition of the specification, in its words: with \<open>buf\<close> accumulated before, the
  response is finished at the read of index \<open>n\<close> when that read signals the end of the
  stream, or the text accumulated up to and including it contains the marker.
\<close>

definition spec_finished_at :: "string \<Rightarrow> read_result list \<Rightarrow> nat \<Rightarrow> bool" where
  "spec_finished_at buf rs n =
     (rs ! n = EndOfStream \<or> has_marker (buf @ chunks_text (take (Suc n) rs)))"

text \<open>The texts that invocation \<open>sid\<close> passed to \<open>onData\<close>, and to \<open>onComplete\<close>.\<close>

fun data_of :: "nat \<Rightarrow> effect \<Rightarrow> string option" where
  "data_of sid (OnData s d) = (if s = sid then Some d else None)"
| "data_of sid _ = None"

definition data_events :: "nat \<Rightarrow> effect list \<Rightarrow> string list" where
  "data_events sid tr = List.map_filter (data_of sid) tr"

fun completion_of :: "nat \<Rightarrow> effect \<Rightarrow> string option" where
  "completion_of sid (OnComplete s d) = (if s = sid then Some d else None)"
| "completion_of sid _ = None"

definition completions :: "nat \<Rightarrow> effect list \<Rightarrow> string list" where
  "completions sid tr = List.map_filter (completion_of sid) tr"

text \<open>
  The write that \<open>handleStreamingComplete\<close> makes for a final text \<open>t\<close>, by its guards and
  those of \<open>cacheResponse\<close>.
\<close>

definition write_on_complete :: "world \<Rightarrow> string \<Rightarrow> effect list" where
  "write_on_complete w t =
     (case currentAlert w of
        None \<Rightarrow> []
      | Some a \<Rightarrow>
          (case alert_id a of
             None \<Rightarrow> []
           | Some k \<Rightarrow>
               if isVisible w \<and> k \<noteq> [] \<and> t \<noteq> [] \<and> assigns_entry (storage_get_ai_responses w) k
               then [StorageSet k t (now w)] else []))"

text \<open>
  The service is free again: both fields are reset, and a call of \<open>streamFixSuggestion\<close>
  with \<open>alertData\<close> is not turned away by the guard on \<open>isStreaming\<close>.
\<close>

definition guard_released :: "world \<Rightarrow> alert option \<Rightarrow> bool" where
  "guard_released w alertData =
     (\<not> isStreaming w \<and> currentStream w = None
      \<and> fst (streamFixSuggestion alertData w) \<noteq> Inl (Error ''AI assistance is already in progress''))"

subsection \<open>States of the scenarios\<close>

text \<open>
  The page after assistance was asked for \<open>a1\<close> with nothing cached: the request is
  pending; the response has arrived and the first read is pending; a response with
  status 429 has arrived and its JSON body is being read.
\<close>

definition awaiting_post :: world where
  "awaiting_post = run [AssistRequest (Some alert_a1)] (initial 0 Map.empty)"

definition awaiting_read :: world where
  "awaiting_read =
     run [AssistRequest (Some alert_a1), PostResolves 0 ok_response] (initial 0 Map.empty)"

definition awaiting_json :: world where
  "awaiting_json =
     run [AssistRequest (Some alert_a1), PostResolves 0 \<lparr>status = 429, body = NullBody\<rparr>]
       (initial 0 Map.empty)"

text \<open>An alert without a package, and a cache that holds a suggestion for \<open>a1\<close> stored at time 0.\<close>

definition alert_no_package :: alert where
  "alert_no_package = alert_a1\<lparr>package := None\<rparr>"

definition cache_a1 :: "string \<rightharpoonup> cache_entry" where
  "cache_a1 = Map.empty(''a1'' \<mapsto> \<lparr>response = ''Upgrade lodash to 4.17.21'', timestamp = 0\<rparr>)"

section \<open>The response cache\<close>

text \<open>
  Claim C6, as the code has it. \<open>getCachedResponse\<close> returns a text exactly when the
  identifier is non-empty and \<open>localStorage\<close> holds an entry for it with a non-empty text
  whose age, \<open>now\<close> minus its timestamp, is strictly less than 24 hours; the text returned
  is the stored one. An entry stored 25 hours ago is therefore absent. The function only
  reads: it returns no new state, so nothing is purged.
\<close>

theorem getCachedResponse_iff:
  "(getCachedResponse alertId w = Some text \<longleftrightarrow>
      (\<exists>k e. alertId = Some k \<and> k \<noteq> [] \<and> storage_get_ai_responses w k = Some e \<and>
         response e = text \<and> text \<noteq> [] \<and> now w - timestamp e < retention))
   \<and> retention = 24 * hour
   \<and> getCachedResponse (Some k')
        (w\<lparr>storage_ok := True,
           ai_responses := (ai_responses w)(k' \<mapsto> \<lparr>response = text', timestamp = now w - 25 * hour\<rparr>)\<rparr>)
      = None"
proof -
  have "getCachedResponse alertId w = Some text \<longleftrightarrow>
      (\<exists>k e. alertId = Some k \<and> k \<noteq> [] \<and> storage_get_ai_responses w k = Some e \<and>
         response e = text \<and> text \<noteq> [] \<and> now w - timestamp e < retention)"
    by (auto simp: getCachedResponse_def split: option.splits)
  moreover have "retention = 24 * hour"
    by (simp add: retention_def hour_def)
  moreover have "getCachedResponse (Some k')
        (w\<lparr>storage_ok := True,
           ai_responses := (ai_responses w)(k' \<mapsto> \<lparr>response = text', timestamp = now w - 25 * hour\<rparr>)\<rparr>)
      = None"
    by (simp add: getCachedResponse_def storage_get_ai_responses_def retention_def hour_def)
  ultimately show ?thesis by blast
qed

text \<open>
  The claim as it is written lets an entry whose age equals the window still count. At
  time \<open>24 * hour\<close> the entry stored at time 0 for \<open>a1\<close> is there, its age does not exceed
  the window, and the cache returns nothing.
\<close>

theorem getCachedResponse_at_24h:
  "storage_get_ai_responses
       (initial (24 * hour) (Map.empty(''a1'' \<mapsto> \<lparr>response = ''fix'', timestamp = 0\<rparr>))) ''a1''
     = Some \<lparr>response = ''fix'', timestamp = 0\<rparr>
   \<and> now (initial (24 * hour) (Map.empty(''a1'' \<mapsto> \<lparr>response = ''fix'', timestamp = 0\<rparr>))) - 0
       \<le> retention
   \<and> getCachedResponse (Some ''a1'')
       (initial (24 * hour) (Map.empty(''a1'' \<mapsto> \<lparr>response = ''fix'', timestamp = 0\<rparr>)))
     = None"
  by (simp add: getCachedResponse_def storage_get_ai_responses_def retention_def hour_def
      initial_def)

section \<open>Auxiliary facts\<close>

subsection \<open>What the handlers leave alone\<close>

lemma fields_emit [simp]:
  "isStreaming (emit e w) = isStreaming w"
  "currentStream (emit e w) = currentStream w"
  "sessions (emit e w) = sessions w"
  "next_session (emit e w) = next_session w"
  "now (emit e w) = now w"
  "isVisible (emit e w) = isVisible w"
  "currentAlert (emit e w) = currentAlert w"
  "storage_ok (emit e w) = storage_ok w"
  "ai_responses (emit e w) = ai_responses w"
  "trace (emit e w) = trace w @ [e]"
  by (simp_all add: emit_def)

lemma fields_handleStreamingError [simp]:
  "isStreaming (handleStreamingError e w) = isStreaming w"
  "currentStream (handleStreamingError e w) = currentStream w"
  "sessions (handleStreamingError e w) = sessions w"
  "next_session (handleStreamingError e w) = next_session w"
  "now (handleStreamingError e w) = now w"
  "isVisible (handleStreamingError e w) = isVisible w"
  "currentAlert (handleStreamingError e w) = currentAlert w"
  "storage_ok (handleStreamingError e w) = storage_ok w"
  "ai_responses (handleStreamingError e w) = ai_responses w"
  by (simp_all add: handleStreamingError_def showError_def emit_def)

lemma trace_handleStreamingError:
  "trace (handleStreamingError e w) =
     trace w @ [Notification (or_default (err_message e) AI_SERVICE_ERROR) ''error'']"
  by (simp add: handleStreamingError_def showError_def emit_def)

lemma fields_cacheResponse [simp]:
  "isStreaming (cacheResponse k r w) = isStreaming w"
  "currentStream (cacheResponse k r w) = currentStream w"
  "sessions (cacheResponse k r w) = sessions w"
  "next_session (cacheResponse k r w) = next_session w"
  "now (cacheResponse k r w) = now w"
  "isVisible (cacheResponse k r w) = isVisible w"
  "currentAlert (cacheResponse k r w) = currentAlert w"
  "storage_ok (cacheResponse k r w) = storage_ok w"
  by (simp_all add: cacheResponse_def storage_set_ai_responses_def emit_def Let_def
      split: option.splits if_splits)

lemma fields_handleStreamingComplete [simp]:
  "isStreaming (handleStreamingComplete d w) = isStreaming w"
  "currentStream (handleStreamingComplete d w) = currentStream w"
  "sessions (handleStreamingComplete d w) = sessions w"
  "next_session (handleStreamingComplete d w) = next_session w"
  "now (handleStreamingComplete d w) = now w"
  "isVisible (handleStreamingComplete d w) = isVisible w"
  "currentAlert (handleStreamingComplete d w) = currentAlert w"
  "storage_ok (handleStreamingComplete d w) = storage_ok w"
  by (simp_all add: handleStreamingComplete_def emit_def Let_def split: option.splits)

lemma fields_updateStreamingContent [simp]:
  "isStreaming (updateStreamingContent d w) = isStreaming w"
  "currentStream (updateStreamingContent d w) = currentStream w"
  "sessions (updateStreamingContent d w) = sessions w"
  "next_session (updateStreamingContent d w) = next_session w"
  "now (updateStreamingContent d w) = now w"
  "isVisible (updateStreamingContent d w) = isVisible w"
  "currentAlert (updateStreamingContent d w) = currentAlert w"
  "storage_ok (updateStreamingContent d w) = storage_ok w"
  "ai_responses (updateStreamingContent d w) = ai_responses w"
  "trace (updateStreamingContent d w) = trace w"
  by (simp_all add: updateStreamingContent_def)

lemma fields_finally_block [simp]:
  "isStreaming (finally_block sid w) = False"
  "currentStream (finally_block sid w) = None"
  "sessions (finally_block sid w) = (sessions w)(sid := None)"
  "next_session (finally_block sid w) = next_session w"
  "now (finally_block sid w) = now w"
  "isVisible (finally_block sid w) = isVisible w"
  "currentAlert (finally_block sid w) = currentAlert w"
  "storage_ok (finally_block sid w) = storage_ok w"
  "ai_responses (finally_block sid w) = ai_responses w"
  "trace (finally_block sid w) = trace w"
  by (simp_all add: finally_block_def)

lemma fields_completed [simp]:
  "isStreaming (completed sid t w) = False"
  "currentStream (completed sid t w) = None"
  "sessions (completed sid t w) = (sessions w)(sid := None)"
  "now (completed sid t w) = now w"
  "isVisible (completed sid t w) = isVisible w"
  "currentAlert (completed sid t w) = currentAlert w"
  by (simp_all add: completed_def onComplete_def)

lemma fields_onData [simp]:
  "isStreaming (onData sid d w) = isStreaming w"
  "currentStream (onData sid d w) = currentStream w"
  "sessions (onData sid d w) = sessions w"
  "now (onData sid d w) = now w"
  "isVisible (onData sid d w) = isVisible w"
  "currentAlert (onData sid d w) = currentAlert w"
  "storage_ok (onData sid d w) = storage_ok w"
  "ai_responses (onData sid d w) = ai_responses w"
  "trace (onData sid d w) = trace w @ [OnData sid d]"
  by (simp_all add: onData_def)

subsection \<open>Reading traces piecewise\<close>

lemma obs_append:
  "data_events sid (xs @ ys) = data_events sid xs @ data_events sid ys"
  "completions sid (xs @ ys) = completions sid xs @ completions sid ys"
  "cache_writes (xs @ ys) = cache_writes xs @ cache_writes ys"
  by (simp_all add: data_events_def completions_def cache_writes_def List.map_filter_def)

lemma obs_Cons:
  "data_events sid (e # ys) = (case data_of sid e of None \<Rightarrow> [] | Some d \<Rightarrow> [d]) @ data_events sid ys"
  "completions sid (e # ys) =
     (case completion_of sid e of None \<Rightarrow> [] | Some d \<Rightarrow> [d]) @ completions sid ys"
  "cache_writes (e # ys) = (if is_StorageSet e then [e] else []) @ cache_writes ys"
  "data_events sid [] = []"
  "completions sid [] = []"
  "cache_writes [] = []"
  by (auto simp: data_events_def completions_def cache_writes_def List.map_filter_def
      split: option.splits)

lemma obs_write_on_complete:
  "data_events sid (write_on_complete w t) = []"
  "completions sid (write_on_complete w t) = []"
  "cache_writes (write_on_complete w t) = write_on_complete w t"
  by (auto simp: data_events_def completions_def cache_writes_def List.map_filter_def
      write_on_complete_def split: option.splits)

lemma write_on_complete_cong:
  "isVisible w' = isVisible w \<Longrightarrow> currentAlert w' = currentAlert w \<Longrightarrow> now w' = now w
     \<Longrightarrow> storage_ok w' = storage_ok w \<Longrightarrow> ai_responses w' = ai_responses w
     \<Longrightarrow> write_on_complete w' t = write_on_complete w t"
  by (auto simp: write_on_complete_def storage_get_ai_responses_def split: option.splits)

lemma write_on_complete_simps [simp]:
  "write_on_complete (w\<lparr>sessions := s\<rparr>) t = write_on_complete w t"
  "write_on_complete (emit e w) t = write_on_complete w t"
  "write_on_complete (updateStreamingContent d w) t = write_on_complete w t"
  "write_on_complete (onData sid d w) t = write_on_complete w t"
  by (rule write_on_complete_cong; simp)+

lemma write_on_complete_hidden [simp]: "\<not> isVisible w \<Longrightarrow> write_on_complete w t = []"
  by (auto simp: write_on_complete_def split: option.splits)

lemma trace_handleStreamingComplete:
  "trace (handleStreamingComplete t w) =
     trace w @ (if isVisible w
                then write_on_complete w t @ [Notification AI_RESPONSE_COMPLETE ''success'']
                else [])"
  by (auto simp: handleStreamingComplete_def write_on_complete_def cacheResponse_def
      storage_set_ai_responses_def storage_get_ai_responses_def truthy_def emit_def Let_def
      split: option.splits)

lemma trace_completed:
  "trace (completed sid t w) =
     trace w @ OnComplete sid t #
       (if isVisible w
        then write_on_complete w t @ [Notification AI_RESPONSE_COMPLETE ''success'']
        else [])"
  by (simp add: completed_def onComplete_def trace_handleStreamingComplete)

subsection \<open>Validation\<close>

lemma validate_missing:
  assumes "\<not> truthy (vulnerability a) \<or> \<not> truthy (package a) \<or> \<not> truthy (severity a)"
  shows "validateAlertData a t =
     Inl (Error (''Missing required fields: '' @ join_str '', ''
        (map fst (filter (\<lambda>field. \<not> truthy (snd field a)) requiredFields))))"
  using assms by (auto simp: validateAlertData_def requiredFields_def)

lemma posts_streamFixSuggestion_invalid:
  assumes "\<not> truthy (vulnerability a) \<or> \<not> truthy (package a) \<or> \<not> truthy (severity a)"
  shows "http_posts (trace (snd (streamFixSuggestion (Some a) w))) = http_posts (trace w)"
  by (simp add: streamFixSuggestion_def validate_missing [OF assms] Let_def
      onError_def trace_handleStreamingError http_posts_def)

lemma posts_showModal_invalid:
  assumes "\<not> truthy (vulnerability a) \<or> \<not> truthy (package a) \<or> \<not> truthy (severity a)"
  shows "http_posts (trace (showModal (Some a) w)) = http_posts (trace w)"
proof -
  let ?w1 = "showLoadingState
    (w\<lparr>currentAlert := Some a, isVisible := True, modal_isStreaming := True\<rparr>)"
  have "trace ?w1 = trace w" by (simp add: showLoadingState_def)
  moreover have "http_posts (trace (streamAIResponse a ?w1)) = http_posts (trace ?w1)"
    using posts_streamFixSuggestion_invalid [OF assms, of ?w1]
    by (cases "streamFixSuggestion (Some a) ?w1")
       (auto simp: streamAIResponse_def trace_handleStreamingError http_posts_def
          split: sum.splits)
  ultimately show ?thesis by (simp add: showModal_def)
qed

text \<open>
  Whatever the cache says, \<open>handleAIAssistRequest\<close> ends in \<open>showModal\<close>, on the alert
  itself or on the alert with its \<open>repo_name\<close> set.
\<close>

lemma handleAIAssistRequest_showModal:
  "\<exists>a w1. handleAIAssistRequest (Some a0) w = showModal (Some a) w1
      \<and> sessions w1 = sessions w \<and> trace w1 = trace w
      \<and> (a = a0 \<or> (\<exists>x. a = a0\<lparr>repo_name := x\<rparr>))"
proof -
  define a where "a = (case storage_get_selected_repository w of
                     None \<Rightarrow> a0 | Some full_name \<Rightarrow> a0\<lparr>repo_name := full_name\<rparr>)"
  have a: "a = a0 \<or> (\<exists>x. a = a0\<lparr>repo_name := x\<rparr>)"
    by (auto simp: a_def split: option.splits)
  obtain hit w1 where l: "loadCachedResponse a w = (hit, w1)"
    by (cases "loadCachedResponse a w")
  have w1: "sessions w1 = sessions w" "trace w1 = trace w"
    using l
    by (auto simp: loadCachedResponse_def setModalContent_def split: option.splits if_splits)
  have "handleAIAssistRequest (Some a0) w = showModal (Some a) w1
      \<or> handleAIAssistRequest (Some a0) w = showModal (Some a) w"
    using l by (cases hit) (simp_all add: handleAIAssistRequest_def a_def [symmetric] Let_def)
  then show ?thesis using a w1 by blast
qed

lemma posts_handleAIAssistRequest_invalid:
  assumes "\<not> truthy (vulnerability a) \<or> \<not> truthy (package a) \<or> \<not> truthy (severity a)"
  shows "http_posts (trace (handleAIAssistRequest (Some a) w)) = http_posts (trace w)"
proof -
  obtain a' w1 where h: "handleAIAssistRequest (Some a) w = showModal (Some a') w1"
    and t: "trace w1 = trace w" and a': "a' = a \<or> (\<exists>x. a' = a\<lparr>repo_name := x\<rparr>)"
    using handleAIAssistRequest_showModal [of a w] by blast
  from a' assms
  have "\<not> truthy (vulnerability a') \<or> \<not> truthy (package a') \<or> \<not> truthy (severity a')"
    by auto
  from posts_showModal_invalid [OF this, of w1] show ?thesis by (simp add: h t)
qed

subsection \<open>The guard and the \<open>finally\<close> block\<close>

lemma streamFixSuggestion_guard:
  "isStreaming w \<Longrightarrow>
     streamFixSuggestion alertData w = (Inl (Error ''AI assistance is already in progress''), w)"
  by (simp add: streamFixSuggestion_def)

lemma streamFixSuggestion_not_turned_away:
  "\<not> isStreaming w \<Longrightarrow>
     fst (streamFixSuggestion alertData w) \<noteq> Inl (Error ''AI assistance is already in progress'')"
  by (auto simp: streamFixSuggestion_def validateAlertData_def Let_def Error_def
      split: option.splits sum.splits if_splits)

lemma streamFixSuggestion_removed:
  assumes "sessions w sid = Some p" "sessions (snd (streamFixSuggestion a w)) sid = None"
  shows "\<not> isStreaming (snd (streamFixSuggestion a w))
       \<and> currentStream (snd (streamFixSuggestion a w)) = None"
  using assms
  by (auto simp: streamFixSuggestion_def Let_def onError_def
      split: if_splits option.splits sum.splits)

lemma showModal_removed:
  assumes "sessions w sid = Some p" "sessions (showModal a w) sid = None"
  shows "\<not> isStreaming (showModal a w) \<and> currentStream (showModal a w) = None"
proof (cases a)
  case None
  with assms show ?thesis by (simp add: showModal_def)
next
  case (Some al)
  let ?w1 = "showLoadingState
    (w\<lparr>currentAlert := Some al, isVisible := True, modal_isStreaming := True\<rparr>)"
  have s1: "sessions ?w1 sid = Some p" using assms(1) by (simp add: showLoadingState_def)
  have eq: "showModal a w = (case streamFixSuggestion (Some al) ?w1 of
        (Inl error, w') \<Rightarrow> handleStreamingError error w' | (Inr s, w') \<Rightarrow> w')"
    by (simp add: showModal_def Some streamAIResponse_def)
  show ?thesis
    using streamFixSuggestion_removed [OF s1, of "Some al"] assms(2)
    unfolding eq by (cases "streamFixSuggestion (Some al) ?w1") (auto split: sum.splits)
qed

lemma handleAIAssistRequest_removed:
  assumes "sessions w sid = Some p" "sessions (handleAIAssistRequest a w) sid = None"
  shows "\<not> isStreaming (handleAIAssistRequest a w)
       \<and> currentStream (handleAIAssistRequest a w) = None"
proof (cases a)
  case None
  with assms show ?thesis by (simp add: handleAIAssistRequest_def)
next
  case (Some a0)
  obtain a' w1 where h: "handleAIAssistRequest (Some a0) w = showModal (Some a') w1"
    and s: "sessions w1 = sessions w"
    using handleAIAssistRequest_showModal [of a0 w] by blast
  show ?thesis
    using showModal_removed [of w1 sid p "Some a'"] assms s h Some by simp
qed

text \<open>
  An invocation leaves \<open>sessions\<close> only through the \<open>finally\<close> block, and nothing that
  follows it in the same turn sets the two fields again.
\<close>

lemma step_removed:
  assumes "sessions w sid = Some p" "sessions (step i w) sid = None"
  shows "\<not> isStreaming (step i w) \<and> currentStream (step i w) = None"
proof (cases i)
  case (AssistRequest a)
  then show ?thesis using assms handleAIAssistRequest_removed by simp
next
  case CloseModal
  then show ?thesis using assms
    by (auto simp: closeModal_def cancelStream_def Let_def
        split: if_splits option.splits reader.splits bool.splits)
next
  case RetryClick
  then show ?thesis using assms showModal_removed
    by (auto simp: retry_click_def split: view.splits option.splits)
next
  case CancelStream
  then show ?thesis using assms
    by (auto simp: cancelStream_def Let_def
        split: if_splits option.splits reader.splits bool.splits)
next
  case ClearTimeout
  then show ?thesis using assms by (auto simp: clear_timeout_def split: if_splits)
next
  case (TimePasses n)
  then show ?thesis using assms by auto
next
  case (PostResolves s r)
  then show ?thesis using assms
    by (auto simp: post_resolved_def streaming_failed_def rejected_def onError_def
        split: option.splits phase.splits if_splits response_body.splits)
next
  case (PostRejects s e)
  then show ?thesis using assms
    by (auto simp: rejected_def onError_def split: option.splits phase.splits if_splits)
next
  case (JsonSettles s j)
  then show ?thesis using assms
    by (auto simp: json_settled_def rejected_def onError_def
        split: option.splits phase.splits if_splits)
next
  case (ReadResolves s r)
  then show ?thesis using assms
    by (auto simp: read_resolved_def completed_def onComplete_def onData_def Let_def
        split: option.splits phase.splits if_splits read_result.splits)
next
  case (ReadRejects s e)
  then show ?thesis using assms
    by (auto simp: streaming_failed_def rejected_def onError_def
        split: option.splits phase.splits if_splits)
qed

subsection \<open>The loop, read by read\<close>

lemma run_reads_ended:
  "sessions w sid = None \<Longrightarrow> run (map (ReadResolves sid) rs) w = w"
  by (induction rs) (simp_all add: run_def)

lemma run_read_Cons:
  "run (map (ReadResolves sid) (r # rs)) w
     = run (map (ReadResolves sid) rs) (step (ReadResolves sid r) w)"
  by (simp add: run_def)

lemma run_reads:
  assumes "sessions w sid = Some (AwaitRead buf)"
  shows "data_events sid (trace (run (map (ReadResolves sid) rs) w))
           = data_events sid (trace w) @ fst (read_loop buf rs)
       \<and> completions sid (trace (run (map (ReadResolves sid) rs) w))
           = completions sid (trace w)
               @ (case snd (read_loop buf rs) of None \<Rightarrow> [] | Some t \<Rightarrow> [t])
       \<and> cache_writes (trace (run (map (ReadResolves sid) rs) w))
           = cache_writes (trace w)
               @ (case snd (read_loop buf rs) of None \<Rightarrow> [] | Some t \<Rightarrow> write_on_complete w t)
       \<and> sessions (run (map (ReadResolves sid) rs) w) sid
           = (case snd (read_loop buf rs) of
                None \<Rightarrow> Some (AwaitRead (buf @ chunks_text rs)) | Some t \<Rightarrow> None)"
  using assms
proof (induction rs arbitrary: w buf)
  case Nil
  then show ?case by (simp add: run_def chunks_text_def)
next
  case (Cons r rs)
  show ?case
  proof (cases r)
    case EndOfStream
    have st: "step (ReadResolves sid r) w = completed sid buf w"
      using Cons.prems EndOfStream by (simp add: read_resolved_def)
    have "sessions (completed sid buf w) sid = None" by simp
    then have r: "run (map (ReadResolves sid) (r # rs)) w = completed sid buf w"
      unfolding run_read_Cons st by (rule run_reads_ended)
    show ?thesis unfolding r using EndOfStream
      by (simp add: trace_completed obs_append obs_Cons obs_write_on_complete)
  next
    case (Chunk c)
    show ?thesis
    proof (cases "has_marker (buf @ c)")
      case True
      have st: "step (ReadResolves sid r) w = completed sid (buf @ c) (onData sid (buf @ c) w)"
        using Cons.prems Chunk True by (simp add: read_resolved_def Let_def)
      have "sessions (completed sid (buf @ c) (onData sid (buf @ c) w)) sid = None" by simp
      then have r: "run (map (ReadResolves sid) (r # rs)) w
          = completed sid (buf @ c) (onData sid (buf @ c) w)"
        unfolding run_read_Cons st by (rule run_reads_ended)
      show ?thesis unfolding r using Chunk True
        by (simp add: trace_completed obs_append obs_Cons obs_write_on_complete Let_def)
    next
      case False
      let ?w1 = "(onData sid (buf @ c) w)
        \<lparr>sessions := (sessions (onData sid (buf @ c) w))(sid \<mapsto> AwaitRead (buf @ c))\<rparr>"
      have st: "step (ReadResolves sid r) w = ?w1"
        using Cons.prems Chunk False by (simp add: read_resolved_def Let_def)
      have s1: "sessions ?w1 sid = Some (AwaitRead (buf @ c))" by simp
      have tr: "trace ?w1 = trace w @ [OnData sid (buf @ c)]" by simp
      show ?thesis
        unfolding run_read_Cons st
        using Cons.IH [OF s1] Chunk False
        by (auto simp: tr obs_append obs_Cons chunks_text_def Let_def
            split: prod.splits option.splits)
    qed
  qed
qed



subsection \<open>What the subscriber receives on a failure\<close>

lemma callbacks_append: "callbacks sid (xs @ ys) = callbacks sid xs @ callbacks sid ys"
  by (simp add: callbacks_def)

lemma callbacks_rejected:
  "callbacks sid (trace (rejected sid e w)) = callbacks sid (trace w) @ [OnError sid e]"
  by (simp add: rejected_def onError_def trace_handleStreamingError callbacks_def)

subsection \<open>The loop and the condition of the specification\<close>

lemma spec_finished_at_0:
  "spec_finished_at buf (r # rs) 0 = (r = EndOfStream \<or> has_marker (buf @ text_of r))"
  by (simp add: spec_finished_at_def chunks_text_def)

lemma spec_finished_at_Suc:
  "spec_finished_at buf (Chunk c # rs) (Suc n) = spec_finished_at (buf @ c) rs n"
  by (simp add: spec_finished_at_def chunks_text_def)

lemma read_loop_unfinished:
  "snd (read_loop buf rs) = None \<longleftrightarrow> (\<forall>n<length rs. \<not> spec_finished_at buf rs n)"
proof (induction rs arbitrary: buf)
  case Nil
  then show ?case by simp
next
  case (Cons r rs)
  show ?case
  proof (cases r)
    case EndOfStream
    then show ?thesis by (auto simp: spec_finished_at_0)
  next
    case (Chunk c)
    show ?thesis
    proof (cases "has_marker (buf @ c)")
      case True
      then show ?thesis using Chunk by (auto simp: spec_finished_at_0 Let_def)
    next
      case False
      have "snd (read_loop buf (r # rs)) = snd (read_loop (buf @ c) rs)"
        using Chunk False by (simp add: Let_def split: prod.splits)
      then show ?thesis
        using Cons.IH [of "buf @ c"] Chunk False
        by (simp add: All_less_Suc2 spec_finished_at_0 spec_finished_at_Suc)
    qed
  qed
qed

lemma read_loop_finished:
  "n < length rs \<Longrightarrow> spec_finished_at buf rs n \<Longrightarrow> \<forall>m<n. \<not> spec_finished_at buf rs m \<Longrightarrow>
     read_loop buf rs =
       (map (\<lambda>k. buf @ chunks_text (take (Suc k) rs))
          [0..<(if rs ! n = EndOfStream then n else Suc n)],
        Some (buf @ chunks_text (take (Suc n) rs)))"
proof (induction rs arbitrary: buf n)
  case Nil
  then show ?case by simp
next
  case (Cons r rs)
  show ?case
  proof (cases n)
    case 0
    with Cons.prems show ?thesis
      by (cases r) (auto simp: spec_finished_at_0 chunks_text_def Let_def)
  next
    case (Suc n')
    with Cons.prems have f0: "\<not> spec_finished_at buf (r # rs) 0" by auto
    then obtain c where r: "r = Chunk c" and m: "\<not> has_marker (buf @ c)"
      by (cases r) (auto simp: spec_finished_at_0)
    have 1: "n' < length rs" using Cons.prems Suc by simp
    have 2: "spec_finished_at (buf @ c) rs n'"
      using Cons.prems(2) by (simp add: Suc r spec_finished_at_Suc)
    have 3: "\<forall>m<n'. \<not> spec_finished_at (buf @ c) rs m"
    proof (intro allI impI)
      fix m assume "m < n'"
      then have "\<not> spec_finished_at buf (r # rs) (Suc m)" using Cons.prems(3) Suc by simp
      then show "\<not> spec_finished_at (buf @ c) rs m" by (simp add: r spec_finished_at_Suc)
    qed
    from Cons.IH [OF 1 2 3] show ?thesis
      using r m Suc
      by (simp add: Let_def map_upt_Suc chunks_text_def del: upt_Suc)
  qed
qed

subsection \<open>Where the cache is written\<close>

lemma cache_writes_handleStreamingError [simp]:
  "cache_writes (trace (handleStreamingError e w)) = cache_writes (trace w)"
  by (simp add: trace_handleStreamingError obs_append obs_Cons)

lemma cache_writes_rejected [simp]:
  "cache_writes (trace (rejected sid e w)) = cache_writes (trace w)"
  by (simp add: rejected_def onError_def obs_append obs_Cons)

lemma cache_writes_streaming_failed [simp]:
  "cache_writes (trace (streaming_failed sid e w)) = cache_writes (trace w)"
  by (simp add: streaming_failed_def onError_def obs_append obs_Cons)

lemma cache_writes_streamFixSuggestion [simp]:
  "cache_writes (trace (snd (streamFixSuggestion a w))) = cache_writes (trace w)"
  by (simp add: streamFixSuggestion_def Let_def onError_def obs_append obs_Cons
      split: option.splits sum.splits)

lemma cache_writes_showModal [simp]:
  "cache_writes (trace (showModal a w)) = cache_writes (trace w)"
proof (cases a)
  case None
  then show ?thesis by (simp add: showModal_def)
next
  case (Some al)
  let ?w1 = "showLoadingState
    (w\<lparr>currentAlert := Some al, isVisible := True, modal_isStreaming := True\<rparr>)"
  have t: "trace ?w1 = trace w" by (simp add: showLoadingState_def)
  have "cache_writes (trace (streamAIResponse al ?w1)) = cache_writes (trace ?w1)"
    using cache_writes_streamFixSuggestion [of "Some al" ?w1]
    by (cases "streamFixSuggestion (Some al) ?w1")
       (auto simp: streamAIResponse_def split: sum.splits)
  then show ?thesis by (simp add: showModal_def Some t)
qed

lemma cache_writes_cancelStream [simp]:
  "cache_writes (trace (cancelStream w)) = cache_writes (trace w)"
  by (auto simp: cancelStream_def Let_def obs_append obs_Cons
      split: option.splits reader.splits bool.splits)

text \<open>Only the resolution of a read can be followed by a write to the cache.\<close>

lemma cache_writes_other_steps:
  assumes "\<forall>s r. i \<noteq> ReadResolves s r"
  shows "cache_writes (trace (step i w)) = cache_writes (trace w)"
proof (cases i)
  case (AssistRequest a)
  show ?thesis
  proof (cases a)
    case None
    then show ?thesis using AssistRequest by (simp add: handleAIAssistRequest_def)
  next
    case (Some a0)
    obtain a' w1 where "handleAIAssistRequest (Some a0) w = showModal (Some a') w1"
      "trace w1 = trace w"
      using handleAIAssistRequest_showModal [of a0 w] by blast
    then show ?thesis using AssistRequest Some by simp
  qed
next
  case CloseModal
  then show ?thesis by (simp add: closeModal_def Let_def)
next
  case RetryClick
  then show ?thesis by (simp add: retry_click_def split: view.splits option.splits)
next
  case CancelStream
  then show ?thesis by simp
next
  case ClearTimeout
  then show ?thesis by (simp add: clear_timeout_def)
next
  case (TimePasses n)
  then show ?thesis by simp
next
  case (PostResolves s r)
  then show ?thesis
    by (simp add: post_resolved_def split: option.splits phase.splits response_body.splits)
next
  case (PostRejects s e)
  then show ?thesis by (simp split: option.splits phase.splits)
next
  case (JsonSettles s j)
  then show ?thesis by (simp add: json_settled_def split: option.splits phase.splits)
next
  case (ReadResolves s r)
  then show ?thesis using assms by simp
next
  case (ReadRejects s e)
  then show ?thesis by (simp split: option.splits phase.splits)
qed

section \<open>Classification of failed responses\<close>

text \<open>
  Claim C4, as the code has it. A response of the suggestion service whose status is not
  a success is handed to \<open>_handleApiError\<close>, and the error that the handler throws is
  what the subscriber receives, once. Its message is a function of the status and of the
  body alone: 401 gives \<open>UNAUTHORIZED\<close>, 429 \<open>RATE_LIMITED\<close>, 500 the internal-error
  message, 503 the unavailable message, whatever the body says; any other status gives
  the \<open>error\<close> text of the body, or the default message when the body has no such text,
  is \<open>null\<close> or is not JSON. The status is attached in every case, and the five fixed
  messages differ from one another. Whatever happens while the body is read, the handler
  is left by throwing this error and no other.
\<close>

theorem handleApiError_classification:
  "err_message (handleApiError \<lparr>status = 401, body = b\<rparr> json) = Some UNAUTHORIZED
   \<and> err_message (handleApiError \<lparr>status = 429, body = b\<rparr> json) = Some RATE_LIMITED
   \<and> err_message (handleApiError \<lparr>status = 500, body = b\<rparr> json) = Some SERVICE_INTERNAL_ERROR
   \<and> err_message (handleApiError \<lparr>status = 503, body = b\<rparr> json) = Some SERVICE_UNAVAILABLE
   \<and> (status resp \<notin> {401, 429, 500, 503} \<longrightarrow>
        err_message (handleApiError resp JsonFails) = Some AI_SERVICE_ERROR
        \<and> err_message (handleApiError resp JsonNull) = Some AI_SERVICE_ERROR
        \<and> err_message (handleApiError resp (JsonValue raw)) = Some (or_default raw AI_SERVICE_ERROR))
   \<and> err_status (handleApiError resp json) = Some (status resp)
   \<and> err_name (handleApiError resp json) = ''Error''
   \<and> distinct [UNAUTHORIZED, RATE_LIMITED, SERVICE_INTERNAL_ERROR, SERVICE_UNAVAILABLE,
        AI_SERVICE_ERROR]
   \<and> (sessions w sid = Some AwaitPost \<and> \<not> response_ok resp \<longrightarrow>
        sessions (step (PostResolves sid resp) w) sid = Some (AwaitJson resp)
        \<and> callbacks sid (trace (step (PostResolves sid resp) w)) = callbacks sid (trace w))
   \<and> (sessions w sid = Some (AwaitJson resp) \<longrightarrow>
        callbacks sid (trace (step (JsonSettles sid json) w))
          = callbacks sid (trace w) @ [OnError sid (handleApiError resp json)])"
proof -
  have d: "distinct [UNAUTHORIZED, RATE_LIMITED, SERVICE_INTERNAL_ERROR, SERVICE_UNAVAILABLE,
      AI_SERVICE_ERROR]"
    by (simp add: UNAUTHORIZED_def RATE_LIMITED_def SERVICE_INTERNAL_ERROR_def
        SERVICE_UNAVAILABLE_def AI_SERVICE_ERROR_def)
  have other: "status resp \<notin> {401, 429, 500, 503} \<longrightarrow>
        err_message (handleApiError resp JsonFails) = Some AI_SERVICE_ERROR
        \<and> err_message (handleApiError resp JsonNull) = Some AI_SERVICE_ERROR
        \<and> err_message (handleApiError resp (JsonValue raw)) = Some (or_default raw AI_SERVICE_ERROR)"
    by (simp add: handleApiError_def try_error_from_body_def)
  have post: "sessions w sid = Some AwaitPost \<and> \<not> response_ok resp \<longrightarrow>
        sessions (step (PostResolves sid resp) w) sid = Some (AwaitJson resp)
        \<and> callbacks sid (trace (step (PostResolves sid resp) w)) = callbacks sid (trace w)"
    by (simp add: post_resolved_def)
  have json: "sessions w sid = Some (AwaitJson resp) \<longrightarrow>
        callbacks sid (trace (step (JsonSettles sid json) w))
          = callbacks sid (trace w) @ [OnError sid (handleApiError resp json)]"
    by (simp add: json_settled_def callbacks_rejected)
  have fixed: "err_message (handleApiError \<lparr>status = 401, body = b\<rparr> json) = Some UNAUTHORIZED"
    "err_message (handleApiError \<lparr>status = 429, body = b\<rparr> json) = Some RATE_LIMITED"
    "err_message (handleApiError \<lparr>status = 500, body = b\<rparr> json) = Some SERVICE_INTERNAL_ERROR"
    "err_message (handleApiError \<lparr>status = 503, body = b\<rparr> json) = Some SERVICE_UNAVAILABLE"
    "err_status (handleApiError resp json) = Some (status resp)"
    "err_name (handleApiError resp json) = ''Error''"
    by (simp_all add: handleApiError_def)
  show ?thesis
    using d other post json fixed by blast
qed

theorem handleApiError_classification_witness:
  "(404::int) \<notin> {401, 429, 500, 503}
   \<and> err_message (handleApiError \<lparr>status = 404, body = NullBody\<rparr>
        (JsonValue (Some ''no such route''))) = Some ''no such route''
   \<and> err_message (handleApiError \<lparr>status = 404, body = NullBody\<rparr> JsonFails)
       = Some AI_SERVICE_ERROR
   \<and> sessions awaiting_post 0 = Some AwaitPost
   \<and> \<not> response_ok \<lparr>status = 429, body = NullBody\<rparr>
   \<and> sessions (step (PostResolves 0 \<lparr>status = 429, body = NullBody\<rparr>) awaiting_post) 0
       = Some (AwaitJson \<lparr>status = 429, body = NullBody\<rparr>)
   \<and> sessions awaiting_json 0 = Some (AwaitJson \<lparr>status = 429, body = NullBody\<rparr>)
   \<and> callbacks 0 (trace (step (JsonSettles 0 JsonNull) awaiting_json))
       = [OnError 0 \<lparr>err_name = ''Error'', err_message = Some RATE_LIMITED,
            err_status = Some 429\<rparr>]"
proof -
  let ?r404 = "\<lparr>status = 404, body = NullBody\<rparr>"
  let ?r429 = "\<lparr>status = 429, body = NullBody\<rparr>"
  note t1 = handleApiError_classification
    [where resp = ?r404 and raw = "Some ''no such route''" and b = NullBody and json = JsonFails
       and w = awaiting_post and sid = 0]
  note t2 = handleApiError_classification
    [where resp = ?r429 and raw = None and b = NullBody and json = JsonNull
       and w = awaiting_post and sid = 0]
  note t3 = handleApiError_classification
    [where resp = ?r429 and raw = None and b = NullBody and json = JsonNull
       and w = awaiting_json and sid = 0]
  have n: "(404::int) \<notin> {401, 429, 500, 503}" by simp
  have p: "sessions awaiting_post 0 = Some AwaitPost" by code_simp
  have k: "\<not> response_ok ?r429" by (simp add: response_ok_def)
  have j: "sessions awaiting_json 0 = Some (AwaitJson ?r429)" by code_simp
  have c: "callbacks 0 (trace awaiting_json) = []" by code_simp
  have g1: "err_message (handleApiError ?r404 (JsonValue (Some ''no such route'')))
      = Some ''no such route''"
    using t1 n by (simp add: or_default_def)
  have g2: "err_message (handleApiError ?r404 JsonFails) = Some AI_SERVICE_ERROR"
    using t1 n by simp
  have g3: "sessions (step (PostResolves 0 ?r429) awaiting_post) 0 = Some (AwaitJson ?r429)"
    using t2 p k by blast
  have e: "handleApiError ?r429 JsonNull
      = \<lparr>err_name = ''Error'', err_message = Some RATE_LIMITED, err_status = Some 429\<rparr>"
    using t3 by (cases "handleApiError ?r429 JsonNull") simp
  have "callbacks 0 (trace (step (JsonSettles 0 JsonNull) awaiting_json))
      = callbacks 0 (trace awaiting_json) @ [OnError 0 (handleApiError ?r429 JsonNull)]"
    using t3 j by blast
  then have g4: "callbacks 0 (trace (step (JsonSettles 0 JsonNull) awaiting_json))
      = [OnError 0 \<lparr>err_name = ''Error'', err_message = Some RATE_LIMITED,
            err_status = Some 429\<rparr>]"
    by (simp only: c e append_Nil)
  show ?thesis
    by (intro conjI) (fact n g1 g2 p k g3 j g4)+
qed

text \<open>
  The claim as it is written has a missing response classified as a network error, and
  a classifier that raises on no input. When the request is rejected because no response
  arrives, \<open>AIService\<close> passes the rejection on as it is: the subscriber receives the
  engine's error and the modal shows its text, which is not the network-error message.
  \<open>getErrorMessage\<close>, which would map it, is not called on this path; it returns the raw
  message for a status 500, and on a signal with status 401 and no message it raises
  instead of returning the message for 401.
\<close>

theorem missing_response_not_classified:
  "callbacks 0 (trace (run [AssistRequest (Some alert_a1), PostRejects 0 fetch_failure]
        (initial 0 Map.empty))) = [OnError 0 fetch_failure]
   \<and> modalContent (run [AssistRequest (Some alert_a1), PostRejects 0 fetch_failure]
        (initial 0 Map.empty)) = ErrorState ''Failed to fetch''
   \<and> ''Failed to fetch'' \<noteq> NETWORK_ERROR
   \<and> getErrorMessage
        (Some \<lparr>err_name = ''Error'', err_message = Some ''upstream failed'', err_status = Some 500\<rparr>)
       = Inr ''upstream failed''
   \<and> getErrorMessage (Some \<lparr>err_name = ''Error'', err_message = None, err_status = Some 401\<rparr>)
       = Inl undefined_property_error"
  by code_simp

section \<open>Validation before the request\<close>

text \<open>
  Claim C8. An alert that lacks \<open>vulnerability\<close>, \<open>package\<close> or \<open>severity\<close> (absent or
  empty) never reaches the network. On an idle service \<open>streamFixSuggestion\<close> rejects with
  the error "Missing required fields: ..." naming the fields that are missing; on a busy
  service the guard rejects it first. Either way no request is issued, no invocation is
  left suspended, and asking for assistance on such an alert through
  \<open>handleAIAssistRequest\<close> issues no request either.
\<close>

theorem validation_failure_no_network:
  assumes "\<not> truthy (vulnerability a) \<or> \<not> truthy (package a) \<or> \<not> truthy (severity a)"
  shows "(\<not> isStreaming w \<longrightarrow>
            fst (streamFixSuggestion (Some a) w) =
              Inl (Error (''Missing required fields: '' @ join_str '', ''
                (map fst (filter (\<lambda>field. \<not> truthy (snd field a)) requiredFields)))))
       \<and> (isStreaming w \<longrightarrow>
            fst (streamFixSuggestion (Some a) w) = Inl (Error ''AI assistance is already in progress''))
       \<and> http_posts (trace (snd (streamFixSuggestion (Some a) w))) = http_posts (trace w)
       \<and> dom (sessions (snd (streamFixSuggestion (Some a) w))) \<subseteq> dom (sessions w)
       \<and> http_posts (trace (handleAIAssistRequest (Some a) w)) = http_posts (trace w)"
proof -
  note v = validate_missing [OF assms]
  have s: "fst (streamFixSuggestion (Some a) w) =
      (if isStreaming w then Inl (Error ''AI assistance is already in progress'')
       else Inl (Error (''Missing required fields: '' @ join_str '', ''
                (map fst (filter (\<lambda>field. \<not> truthy (snd field a)) requiredFields)))))"
    by (simp add: streamFixSuggestion_def v Let_def)
  have d: "dom (sessions (snd (streamFixSuggestion (Some a) w))) \<subseteq> dom (sessions w)"
    by (auto simp: streamFixSuggestion_def v Let_def onError_def split: if_splits)
  show ?thesis
    using s d posts_streamFixSuggestion_invalid [OF assms, of w]
      posts_handleAIAssistRequest_invalid [OF assms, of w]
    by simp
qed

theorem validation_failure_no_network_witness:
  "\<not> truthy (package alert_no_package)
   \<and> \<not> isStreaming (initial 0 Map.empty)
   \<and> fst (streamFixSuggestion (Some alert_no_package) (initial 0 Map.empty))
       = Inl (Error ''Missing required fields: package'')
   \<and> http_posts (trace (snd (streamFixSuggestion (Some alert_no_package) (initial 0 Map.empty)))) = []
   \<and> http_posts (trace (handleAIAssistRequest (Some alert_no_package) (initial 0 Map.empty))) = []"
proof -
  have h: "\<not> truthy (vulnerability alert_no_package) \<or> \<not> truthy (package alert_no_package)
      \<or> \<not> truthy (severity alert_no_package)"
    by (simp add: alert_no_package_def alert_a1_def truthy_def)
  have e: "join_str '', '' (map fst (filter (\<lambda>field. \<not> truthy (snd field alert_no_package))
      requiredFields)) = ''package''"
    by (simp add: alert_no_package_def alert_a1_def truthy_def requiredFields_def join_str_def)
  have i: "\<not> isStreaming (initial 0 Map.empty)" "http_posts (trace (initial 0 Map.empty)) = []"
    by (simp_all add: initial_def http_posts_def)
  have p: "\<not> truthy (package alert_no_package)"
    by (simp add: alert_no_package_def alert_a1_def truthy_def)
  show ?thesis
    using validation_failure_no_network [OF h, of "initial 0 Map.empty"] e i p by simp
qed

section \<open>Cancellation\<close>

text \<open>
  Claim C3. Assistance is asked for \<open>a1\<close>, the response arrives and a first chunk is
  delivered; then \<open>cancelStream\<close> is called, twice. The reader of a fetch body has
  \<open>cancel\<close> and no \<open>abort\<close> method (so \<open>ok_response\<close> carries \<open>Stream False\<close>), and the
  request was made without an abort signal: the call aborts nothing. The trace after the
  first call is the trace before it, so no event marks the cancellation, and the two
  calls leave \<open>isStreaming\<close> false with the invocation still suspended on its read. The
  loop of \<open>_handleStreamingResponse\<close> never looks at \<open>isStreaming\<close>: the next chunk and the
  end of the stream reach the subscriber as \<open>onData\<close> and \<open>onComplete\<close>, and the text is
  written to the cache.
\<close>

theorem cancelStream_emits_nothing:
  "trace (run [AssistRequest (Some alert_a1), PostResolves 0 ok_response,
        ReadResolves 0 (Chunk ''abc''), CancelStream] (initial 0 Map.empty))
    = trace (run [AssistRequest (Some alert_a1), PostResolves 0 ok_response,
        ReadResolves 0 (Chunk ''abc'')] (initial 0 Map.empty))
  \<and> \<not> isStreaming (run [AssistRequest (Some alert_a1), PostResolves 0 ok_response,
        ReadResolves 0 (Chunk ''abc''), CancelStream, CancelStream] (initial 0 Map.empty))
  \<and> sessions (run [AssistRequest (Some alert_a1), PostResolves 0 ok_response,
        ReadResolves 0 (Chunk ''abc''), CancelStream, CancelStream] (initial 0 Map.empty)) 0
    = Some (AwaitRead ''abc'')
  \<and> callbacks 0 (trace (run [AssistRequest (Some alert_a1), PostResolves 0 ok_response,
        ReadResolves 0 (Chunk ''abc''), CancelStream, CancelStream,
        ReadResolves 0 (Chunk ''def''), ReadResolves 0 EndOfStream] (initial 0 Map.empty)))
    = [OnData 0 ''abc'', OnData 0 ''abcdef'', OnComplete 0 ''abcdef'']
  \<and> cache_writes (trace (run [AssistRequest (Some alert_a1), PostResolves 0 ok_response,
        ReadResolves 0 (Chunk ''abc''), CancelStream, CancelStream,
        ReadResolves 0 (Chunk ''def''), ReadResolves 0 EndOfStream] (initial 0 Map.empty)))
    = [StorageSet ''a1'' ''abcdef'' 0]"
  by code_simp

section \<open>Release of the service after an invocation ends\<close>

text \<open>
  Claim C10. When an invocation of \<open>streamFixSuggestion\<close> ends, \<open>isStreaming\<close> is false and
  \<open>currentStream\<close> is null, and a following call is not turned away by the guard. This
  holds on each path: the end of the stream, the completion marker, an HTTP error (once
  its body has been read), a failed request, a failed read, and a validation failure;
  and in general for every event after which an invocation that was suspended is no
  longer.
\<close>

theorem flags_released_after_termination:
  "(sessions w sid = Some (AwaitRead buf) \<longrightarrow>
      guard_released (step (ReadResolves sid EndOfStream) w) next_alert)
   \<and> (sessions w sid = Some (AwaitRead buf) \<and> has_marker (buf @ c) \<longrightarrow>
        guard_released (step (ReadResolves sid (Chunk c)) w) next_alert)
   \<and> (sessions w sid = Some (AwaitJson resp) \<longrightarrow>
        guard_released (step (JsonSettles sid json) w) next_alert)
   \<and> (sessions w sid = Some AwaitPost \<longrightarrow>
        guard_released (step (PostRejects sid e) w) next_alert)
   \<and> (sessions w sid = Some (AwaitRead buf) \<longrightarrow>
        guard_released (step (ReadRejects sid e) w) next_alert)
   \<and> (\<not> isStreaming w \<and> validateAlertData a (now w) = Inl e \<longrightarrow>
        guard_released (snd (streamFixSuggestion (Some a) w)) next_alert)
   \<and> (sessions w sid = Some p \<and> sessions (step i w) sid = None \<longrightarrow>
        guard_released (step i w) next_alert)"
proof -
  have general: "guard_released (step j w) next_alert"
    if "sessions w sid = Some q" "sessions (step j w) sid = None" for j q
    using step_removed [OF that] streamFixSuggestion_not_turned_away [of "step j w" next_alert]
    by (simp add: guard_released_def)
  have 1: "sessions (step (ReadResolves sid EndOfStream) w) sid = None"
    if "sessions w sid = Some (AwaitRead buf)"
    using that by (simp add: read_resolved_def)
  have 2: "sessions (step (ReadResolves sid (Chunk c)) w) sid = None"
    if "sessions w sid = Some (AwaitRead buf)" "has_marker (buf @ c)"
    using that by (simp add: read_resolved_def Let_def)
  have 3: "sessions (step (JsonSettles sid json) w) sid = None"
    if "sessions w sid = Some (AwaitJson resp)"
    using that by (simp add: json_settled_def rejected_def onError_def)
  have 4: "sessions (step (PostRejects sid e) w) sid = None"
    if "sessions w sid = Some AwaitPost"
    using that by (simp add: rejected_def onError_def)
  have 5: "sessions (step (ReadRejects sid e) w) sid = None"
    if "sessions w sid = Some (AwaitRead buf)"
    using that by (simp add: streaming_failed_def rejected_def onError_def)
  have 6: "guard_released (snd (streamFixSuggestion (Some a) w)) next_alert"
    if "\<not> isStreaming w" "validateAlertData a (now w) = Inl e"
  proof -
    let ?w' = "snd (streamFixSuggestion (Some a) w)"
    have "\<not> isStreaming ?w' \<and> currentStream ?w' = None"
      using that by (simp add: streamFixSuggestion_def Let_def onError_def)
    then show ?thesis
      using streamFixSuggestion_not_turned_away [of ?w' next_alert]
      by (simp add: guard_released_def)
  qed
  show ?thesis
    using general 1 2 3 4 5 6 by blast
qed

theorem flags_released_after_termination_witness:
  "sessions awaiting_read 0 = Some (AwaitRead [])
   \<and> guard_released (step (ReadResolves 0 EndOfStream) awaiting_read) (Some alert_a2)
   \<and> has_marker ([] @ ''All Done'')
   \<and> guard_released (step (ReadResolves 0 (Chunk ''All Done'')) awaiting_read) (Some alert_a2)
   \<and> sessions awaiting_json 0 = Some (AwaitJson \<lparr>status = 429, body = NullBody\<rparr>)
   \<and> guard_released (step (JsonSettles 0 JsonFails) awaiting_json) (Some alert_a2)
   \<and> sessions awaiting_post 0 = Some AwaitPost
   \<and> guard_released (step (PostRejects 0 (Error ''Failed to fetch'')) awaiting_post) (Some alert_a2)
   \<and> guard_released (step (ReadRejects 0 (Error ''network error'')) awaiting_read) (Some alert_a2)
   \<and> \<not> isStreaming (initial 0 Map.empty)
   \<and> validateAlertData alert_no_package (now (initial 0 Map.empty))
       = Inl (Error ''Missing required fields: package'')
   \<and> guard_released (snd (streamFixSuggestion (Some alert_no_package) (initial 0 Map.empty)))
       (Some alert_a2)"
proof -
  have r: "sessions awaiting_read 0 = Some (AwaitRead [])" by code_simp
  have m: "has_marker ([] @ ''All Done'')" by code_simp
  have j: "sessions awaiting_json 0 = Some (AwaitJson \<lparr>status = 429, body = NullBody\<rparr>)"
    by code_simp
  have p: "sessions awaiting_post 0 = Some AwaitPost" by code_simp
  have i: "\<not> isStreaming (initial 0 Map.empty)" by (simp add: initial_def)
  have v: "validateAlertData alert_no_package (now (initial 0 Map.empty))
       = Inl (Error ''Missing required fields: package'')"
    by code_simp
  note t1 = flags_released_after_termination
    [where w = awaiting_read and sid = 0 and buf = "[]" and c = "''All Done''"
       and next_alert = "Some alert_a2" and e = "Error ''network error''"
       and resp = ok_response and json = JsonFails and a = alert_a1 and p = AwaitPost
       and i = CloseModal]
  note t2 = flags_released_after_termination
    [where w = awaiting_json and sid = 0 and resp = "\<lparr>status = 429, body = NullBody\<rparr>"
       and json = JsonFails and next_alert = "Some alert_a2" and buf = "[]" and c = "[]"
       and e = "Error []" and a = alert_a1 and p = AwaitPost and i = CloseModal]
  note t3 = flags_released_after_termination
    [where w = awaiting_post and sid = 0 and e = "Error ''Failed to fetch''"
       and next_alert = "Some alert_a2" and buf = "[]" and c = "[]" and resp = ok_response
       and json = JsonFails and a = alert_a1 and p = AwaitPost and i = CloseModal]
  note t4 = flags_released_after_termination
    [where w = "initial 0 Map.empty" and a = alert_no_package
       and e = "Error ''Missing required fields: package''" and next_alert = "Some alert_a2"
       and sid = 0 and buf = "[]" and c = "[]" and resp = ok_response and json = JsonFails
       and p = AwaitPost and i = CloseModal]
  have g1: "guard_released (step (ReadResolves 0 EndOfStream) awaiting_read) (Some alert_a2)"
    by (rule t1 [THEN conjunct1, THEN mp, OF r])
  have g2: "guard_released (step (ReadResolves 0 (Chunk ''All Done'')) awaiting_read)
      (Some alert_a2)"
    by (rule t1 [THEN conjunct2, THEN conjunct1, THEN mp, OF conjI [OF r m]])
  have g3: "guard_released (step (JsonSettles 0 JsonFails) awaiting_json) (Some alert_a2)"
    by (rule t2 [THEN conjunct2, THEN conjunct2, THEN conjunct1, THEN mp, OF j])
  have g4: "guard_released (step (PostRejects 0 (Error ''Failed to fetch'')) awaiting_post)
      (Some alert_a2)"
    by (rule t3 [THEN conjunct2, THEN conjunct2, THEN conjunct2, THEN conjunct1, THEN mp, OF p])
  have g5: "guard_released (step (ReadRejects 0 (Error ''network error'')) awaiting_read)
      (Some alert_a2)"
    by (rule t1 [THEN conjunct2, THEN conjunct2, THEN conjunct2, THEN conjunct2,
          THEN conjunct1, THEN mp, OF r])
  have g6: "guard_released (snd (streamFixSuggestion (Some alert_no_package)
      (initial 0 Map.empty))) (Some alert_a2)"
    by (rule t4 [THEN conjunct2, THEN conjunct2, THEN conjunct2, THEN conjunct2,
          THEN conjunct2, THEN conjunct1, THEN mp, OF conjI [OF i v]])
  show ?thesis
    by (intro conjI) (fact r g1 m g2 j g3 p g4 g5 i v g6)+
qed

section \<open>Detection of completion\<close>

text \<open>
  Claim C5. Let an invocation wait for a read with \<open>buf\<close> accumulated, and let \<open>rs\<close> be
  the results the reader would give from there on. Feeding them in order, the invocation
  has ended exactly when some read of \<open>rs\<close> signals the end of the stream or brings the
  accumulated text to contain the marker. At the first such read \<open>n\<close>, completion is
  reported once, with the text accumulated up to there; \<open>onData\<close> has been called for
  the chunks up to that read and for none after it, so the reads that follow are not
  consumed. When no read of \<open>rs\<close> is such, no completion is reported and the invocation
  waits for the next read with all of \<open>rs\<close> accumulated.
\<close>

theorem completion_detection:
  assumes "sessions w sid = Some (AwaitRead buf)"
  shows "(sessions (run (map (ReadResolves sid) rs) w) sid = None
            \<longleftrightarrow> (\<exists>n<length rs. spec_finished_at buf rs n))
       \<and> (\<forall>n<length rs. spec_finished_at buf rs n \<and> (\<forall>m<n. \<not> spec_finished_at buf rs m) \<longrightarrow>
            completions sid (trace (run (map (ReadResolves sid) rs) w))
              = completions sid (trace w) @ [buf @ chunks_text (take (Suc n) rs)]
            \<and> data_events sid (trace (run (map (ReadResolves sid) rs) w))
              = data_events sid (trace w)
                  @ map (\<lambda>k. buf @ chunks_text (take (Suc k) rs))
                      [0..<(if rs ! n = EndOfStream then n else Suc n)])
       \<and> ((\<forall>n<length rs. \<not> spec_finished_at buf rs n) \<longrightarrow>
            completions sid (trace (run (map (ReadResolves sid) rs) w)) = completions sid (trace w)
            \<and> sessions (run (map (ReadResolves sid) rs) w) sid
                = Some (AwaitRead (buf @ chunks_text rs)))"
proof -
  note rr = run_reads [OF assms, of rs]
  have a: "sessions (run (map (ReadResolves sid) rs) w) sid = None
            \<longleftrightarrow> (\<exists>n<length rs. spec_finished_at buf rs n)"
    using rr read_loop_unfinished [of buf rs] by (auto split: option.splits)
  have b: "completions sid (trace (run (map (ReadResolves sid) rs) w))
              = completions sid (trace w) @ [buf @ chunks_text (take (Suc n) rs)]
            \<and> data_events sid (trace (run (map (ReadResolves sid) rs) w))
              = data_events sid (trace w)
                  @ map (\<lambda>k. buf @ chunks_text (take (Suc k) rs))
                      [0..<(if rs ! n = EndOfStream then n else Suc n)]"
    if "n < length rs" "spec_finished_at buf rs n" "\<forall>m<n. \<not> spec_finished_at buf rs m" for n
    using rr read_loop_finished [OF that] by simp
  have c: "completions sid (trace (run (map (ReadResolves sid) rs) w)) = completions sid (trace w)
            \<and> sessions (run (map (ReadResolves sid) rs) w) sid
                = Some (AwaitRead (buf @ chunks_text rs))"
    if "\<forall>n<length rs. \<not> spec_finished_at buf rs n"
    using rr read_loop_unfinished [of buf rs] that by simp
  show ?thesis using a b c by blast
qed

theorem completion_detection_witness:
  "sessions awaiting_read 0 = Some (AwaitRead [])
   \<and> spec_finished_at [] [Chunk ''Analyzing...'', Chunk '' Done'', Chunk ''late'', EndOfStream] 1
   \<and> \<not> spec_finished_at [] [Chunk ''Analyzing...'', Chunk '' Done'', Chunk ''late'', EndOfStream] 0
   \<and> sessions (run (map (ReadResolves 0)
         [Chunk ''Analyzing...'', Chunk '' Done'', Chunk ''late'', EndOfStream]) awaiting_read) 0
       = None
   \<and> completions 0 (trace (run (map (ReadResolves 0)
         [Chunk ''Analyzing...'', Chunk '' Done'', Chunk ''late'', EndOfStream]) awaiting_read))
       = [''Analyzing... Done'']
   \<and> data_events 0 (trace (run (map (ReadResolves 0)
         [Chunk ''Analyzing...'', Chunk '' Done'', Chunk ''late'', EndOfStream]) awaiting_read))
       = [''Analyzing...'', ''Analyzing... Done'']"
proof -
  let ?rs = "[Chunk ''Analyzing...'', Chunk '' Done'', Chunk ''late'', EndOfStream]"
  have s: "sessions awaiting_read 0 = Some (AwaitRead [])" by code_simp
  have f1: "spec_finished_at [] ?rs 1" by code_simp
  have f0: "\<not> spec_finished_at [] ?rs 0" by code_simp
  have first: "\<forall>m<1. \<not> spec_finished_at [] ?rs m" using f0 by simp
  have old: "completions 0 (trace awaiting_read) = []"
    by code_simp
  have old': "data_events 0 (trace awaiting_read) = []"
    by code_simp
  have tx: "chunks_text (take (Suc 1) ?rs) = ''Analyzing... Done''"
    "chunks_text (take (Suc 0) ?rs) = ''Analyzing...''"
    by (simp_all add: chunks_text_def)
  have len: "(1::nat) < length ?rs" by simp
  from completion_detection [OF s, of ?rs]
  have ended: "sessions (run (map (ReadResolves 0) ?rs) awaiting_read) 0 = None
      \<longleftrightarrow> (\<exists>n<length ?rs. spec_finished_at [] ?rs n)"
    and rep: "\<forall>n<length ?rs. spec_finished_at [] ?rs n \<and> (\<forall>m<n. \<not> spec_finished_at [] ?rs m) \<longrightarrow>
            completions 0 (trace (run (map (ReadResolves 0) ?rs) awaiting_read))
              = completions 0 (trace awaiting_read) @ [[] @ chunks_text (take (Suc n) ?rs)]
            \<and> data_events 0 (trace (run (map (ReadResolves 0) ?rs) awaiting_read))
              = data_events 0 (trace awaiting_read)
                  @ map (\<lambda>k. [] @ chunks_text (take (Suc k) ?rs))
                      [0..<(if ?rs ! n = EndOfStream then n else Suc n)]"
    by blast+
  from ended f1 len have e: "sessions (run (map (ReadResolves 0) ?rs) awaiting_read) 0 = None"
    by blast
  from rep [rule_format, of 1] len f1 first
  have "completions 0 (trace (run (map (ReadResolves 0) ?rs) awaiting_read))
              = completions 0 (trace awaiting_read) @ [[] @ chunks_text (take (Suc 1) ?rs)]
        \<and> data_events 0 (trace (run (map (ReadResolves 0) ?rs) awaiting_read))
              = data_events 0 (trace awaiting_read)
                  @ map (\<lambda>k. [] @ chunks_text (take (Suc k) ?rs))
                      [0..<(if ?rs ! 1 = EndOfStream then 1 else Suc 1)]"
    by blast
  then have "completions 0 (trace (run (map (ReadResolves 0) ?rs) awaiting_read))
        = [''Analyzing... Done'']
      \<and> data_events 0 (trace (run (map (ReadResolves 0) ?rs) awaiting_read))
        = [''Analyzing...'', ''Analyzing... Done'']"
    unfolding old old' tx by (simp add: chunks_text_def)
  with s f1 f0 e show ?thesis by blast
qed

section \<open>Write-through to the cache\<close>




section \<open>Scenarios in which the code leaves the specification\<close>

text \<open>
  Claim C1. The alert \<open>a1\<close> has a suggestion in the cache, stored one hour ago, and
  \<open>getCachedResponse\<close> returns it. \<open>handleAIAssistRequest\<close> loads it into the modal and
  then calls \<open>showModal\<close>, which replaces it by the loading indicator and starts
  \<open>streamFixSuggestion\<close>: a request to \<open>/stream_fix\<close> is issued and an invocation waits
  for its response.
\<close>

theorem cached_alert_still_streams:
  "getCachedResponse (alert_id alert_a1) (initial (1 * hour) cache_a1)
     = Some ''Upgrade lodash to 4.17.21''
   \<and> http_posts (trace (handleAIAssistRequest (Some alert_a1) (initial (1 * hour) cache_a1)))
     = [HttpPost STREAM_FIX (request_a1 (1 * hour))]
   \<and> modalContent (handleAIAssistRequest (Some alert_a1) (initial (1 * hour) cache_a1))
     = LoadingIndicator
   \<and> sessions (handleAIAssistRequest (Some alert_a1) (initial (1 * hour) cache_a1)) 0
     = Some AwaitPost
   \<and> isStreaming (handleAIAssistRequest (Some alert_a1) (initial (1 * hour) cache_a1))"
  by code_simp

text \<open>
  Claim C2. Assistance is asked for \<open>a1\<close>, the response arrives, one chunk is read and
  the next read fails. The \<open>catch\<close> of \<open>_handleStreamingResponse\<close> calls \<open>onError\<close> and
  rethrows, and the \<open>catch\<close> of \<open>streamFixSuggestion\<close> calls \<open>onError\<close> again: the
  subscriber receives two terminal events.
\<close>

theorem read_failure_reports_error_twice:
  "callbacks 0 (trace (run
      [AssistRequest (Some alert_a1), PostResolves 0 ok_response,
       ReadResolves 0 (Chunk ''abc''), ReadRejects 0 (Error ''network error'')]
      (initial 0 Map.empty)))
   = [OnData 0 ''abc'', OnError 0 (Error ''network error''), OnError 0 (Error ''network error'')]"
  by code_simp

text \<open>
  Claim C7. Assistance is asked for \<open>a1\<close>; the modal is closed while the request is
  pending, which clears \<open>isStreaming\<close> and aborts nothing, as no reader exists yet;
  assistance is asked for \<open>a2\<close>, and invocation 1 starts while invocation 0 is still in
  flight. Then the request of invocation 0 fails: its \<open>finally\<close> block clears \<open>isStreaming\<close> while invocation 1 is still waiting
  for its response, and the error panel appears in the open modal. At that point a call
  of \<open>streamFixSuggestion\<close> is accepted, and the click on the retry button makes it:
  invocations 1 and 2 are both in flight, neither of them cancelled, and three requests
  have been issued.
\<close>

theorem second_session_accepted_while_active:
  "sessions (run [AssistRequest (Some alert_a1), CloseModal, AssistRequest (Some alert_a2)]
        (initial 0 Map.empty)) 0 = Some AwaitPost
   \<and> sessions (run [AssistRequest (Some alert_a1), CloseModal, AssistRequest (Some alert_a2)]
        (initial 0 Map.empty)) 1 = Some AwaitPost
   \<and> sessions (run [AssistRequest (Some alert_a1), CloseModal, AssistRequest (Some alert_a2),
        PostRejects 0 (Error ''Failed to fetch'')] (initial 0 Map.empty)) 1 = Some AwaitPost
   \<and> \<not> isStreaming (run [AssistRequest (Some alert_a1), CloseModal, AssistRequest (Some alert_a2),
        PostRejects 0 (Error ''Failed to fetch'')] (initial 0 Map.empty))
   \<and> fst (streamFixSuggestion (Some alert_a2)
        (run [AssistRequest (Some alert_a1), CloseModal, AssistRequest (Some alert_a2),
          PostRejects 0 (Error ''Failed to fetch'')] (initial 0 Map.empty))) = Inr 2
   \<and> sessions (run [AssistRequest (Some alert_a1), CloseModal, AssistRequest (Some alert_a2),
        PostRejects 0 (Error ''Failed to fetch''), RetryClick] (initial 0 Map.empty)) 1
      = Some AwaitPost
   \<and> sessions (run [AssistRequest (Some alert_a1), CloseModal, AssistRequest (Some alert_a2),
        PostRejects 0 (Error ''Failed to fetch''), RetryClick] (initial 0 Map.empty)) 2
      = Some AwaitPost
   \<and> http_posts (trace (run [AssistRequest (Some alert_a1), CloseModal,
        AssistRequest (Some alert_a2), PostRejects 0 (Error ''Failed to fetch''), RetryClick]
        (initial 0 Map.empty)))
      = [HttpPost STREAM_FIX (request_a1 0), HttpPost STREAM_FIX (request_a2 0),
         HttpPost STREAM_FIX (request_a2 0)]"
  by code_simp

end
